theory Spec2Isabelle
  imports Main "HOL-Library.AList"
begin

section \<open>Data model\<close>

text \<open>
  Entitlements and manifests are Go maps \<^verbatim>\<open>map[string]interface{}\<close> filled by a
  property-list decoder. A decoded value is a boolean, a string, an integer, a date,
  a byte string, an array or a dictionary; a property list has no null, so a stored
  value is never the nil interface. \<^verbatim>\<open>reflect.DeepEqual\<close> on such values is equality
  of the dynamic type and of the contents, which is the structural equality of the
  datatype below (a dictionary value keeps its entries sorted by key, so that equal
  dictionaries are equal lists). Floating-point values are left out: entitlements and
  the manifest keys read here do not have them.
\<close>

datatype plist_value =
    PBool bool
  | PString string
  | PInteger int
  | PDate int
  | PData string
  | PArray "plist_value list"
  | PDict "(string \<times> plist_value) list"

text \<open>
  A Go map is an association list read through \<open>map_of\<close>: the first entry of a key is
  the stored one. \<open>index\<close> is the Go expression \<^verbatim>\<open>m[key]\<close>, whose result is the nil
  interface (\<open>None\<close>) for an absent key. \<open>range_entries\<close> lists what \<^verbatim>\<open>range m\<close> visits:
  every key once, with its stored value. Go leaves the order of the visit open; the
  loops below only ever leave early with the result they would also reach later, so
  the order does not show in their result.
\<close>

type_synonym PlistData = "(string \<times> plist_value) list"
type_synonym Entitlements = PlistData

definition index :: "PlistData \<Rightarrow> string \<Rightarrow> plist_value option" where
  "index m key = map_of m key"

definition range_entries :: "PlistData \<Rightarrow> (string \<times> plist_value) list" where
  "range_entries m = AList.clearjunk m"

definition DeepEqual :: "plist_value option \<Rightarrow> plist_value option \<Rightarrow> bool" where
  "DeepEqual a b = (a = b)"

text \<open>An error value carries its message, as \<^verbatim>\<open>errors.New\<close> and \<^verbatim>\<open>fmt.Errorf\<close> build it.\<close>

datatype error = Error string

text \<open>An instant of \<^verbatim>\<open>time.Time\<close>, counted in nanoseconds.\<close>

type_synonym time = int

record CertificateInfoModel =
  CommonName :: string
  Serial :: string

record ProvisioningProfileInfoModel =
  Name :: string
  TeamID :: string
  BundleID :: string
  ExportType :: string
  ProvisionedDevices :: "string list"
  DeveloperCertificates :: "CertificateInfoModel list"
  ExpirationDate :: time
  Entitlements :: PlistData
  ProvisionsAllDevices :: bool
  Type :: string

text \<open>
  What the matching code calls in packages that are not part of the sources at hand:
  \<^verbatim>\<open>autocodesign.FindMissingContainers\<close>, the method \<^verbatim>\<open>IsXcodeManaged\<close> of a profile,
  \<^verbatim>\<open>Time.AddDate\<close> and \<^verbatim>\<open>strings.ToLower\<close>. They are parameters of the model: every
  theorem holds for whatever these functions compute.
\<close>

record collaborators =
  FindMissingContainers :: "Entitlements \<Rightarrow> Entitlements \<Rightarrow> error + string list"
  IsXcodeManaged :: "ProvisioningProfileInfoModel \<Rightarrow> bool"
  AddDate :: "time \<Rightarrow> int \<Rightarrow> int \<Rightarrow> int \<Rightarrow> time"
  ToLower :: "string \<Rightarrow> string"

text \<open>
  The key constant \<^verbatim>\<open>autocodesign.ICloudIdentifiersEntitlementKey\<close>. No theorem below
  depends on its spelling.
\<close>

definition ICloudIdentifiersEntitlementKey :: string where
  "ICloudIdentifiersEntitlementKey = ''com.apple.developer.icloud-container-identifiers''"

section \<open>Profile filters\<close>

text \<open>\<^verbatim>\<open>sliceutil.IsStringInSlice\<close>: a linear search for the string.\<close>

fun IsStringInSlice :: "string \<Rightarrow> string list \<Rightarrow> bool" where
  "IsStringInSlice v [] = False"
| "IsStringInSlice v (item # slice) = (if item = v then True else IsStringInSlice v slice)"

text \<open>
  Modelled from the spec: the helper \<^verbatim>\<open>contains\<close> of the package is not among the
  sources; the spec has every required device UDID "appear in the profile's device
  list", so it is membership in the list.
\<close>

fun contains :: "string list \<Rightarrow> string \<Rightarrow> bool" where
  "contains [] v = False"
| "contains (item # slice) v = (if item = v then True else contains slice v)"

definition hasMatchingBundleID :: "ProvisioningProfileInfoModel \<Rightarrow> string \<Rightarrow> bool" where
  "hasMatchingBundleID profile bundleID = (BundleID profile = bundleID)"

fun hasMatchingLocalCertificates_loop :: "string list \<Rightarrow> string list \<Rightarrow> bool" where
  "hasMatchingLocalCertificates_loop profileCertificateSerials [] = True"
| "hasMatchingLocalCertificates_loop profileCertificateSerials (serial # rest) =
     (if \<not> IsStringInSlice serial profileCertificateSerials then False
      else hasMatchingLocalCertificates_loop profileCertificateSerials rest)"

definition hasMatchingLocalCertificates ::
  "ProvisioningProfileInfoModel \<Rightarrow> string list \<Rightarrow> bool" where
  "hasMatchingLocalCertificates profile localCertificateSerials =
     (let profileCertificateSerials = map Serial (DeveloperCertificates profile)
      in hasMatchingLocalCertificates_loop profileCertificateSerials localCertificateSerials)"

definition hasMatchingDistributionType :: "ProvisioningProfileInfoModel \<Rightarrow> string \<Rightarrow> bool" where
  "hasMatchingDistributionType profile distributionType = (ExportType profile = distributionType)"

text \<open>
  \<open>isActive\<close> reads the clock; \<open>now\<close> is the instant \<^verbatim>\<open>time.Now()\<close> returns in that
  call.
\<close>

definition isActive :: "collaborators \<Rightarrow> time \<Rightarrow> ProvisioningProfileInfoModel \<Rightarrow> int \<Rightarrow> bool" where
  "isActive c now profile minProfileDaysValid =
     (let expiration = now;
          expiration = (if minProfileDaysValid > 0
                        then AddDate c expiration 0 0 minProfileDaysValid else expiration)
      in expiration < ExpirationDate profile)"

definition hasMatchingPlatform ::
  "collaborators \<Rightarrow> ProvisioningProfileInfoModel \<Rightarrow> string \<Rightarrow> bool" where
  "hasMatchingPlatform c profile platform = (ToLower c platform = Type profile)"

fun provisionsDevices_loop :: "string list \<Rightarrow> string list \<Rightarrow> bool" where
  "provisionsDevices_loop provisioned [] = True"
| "provisionsDevices_loop provisioned (deviceUDID # rest) =
     (if contains provisioned deviceUDID then provisionsDevices_loop provisioned rest
      else False)"

definition provisionsDevices :: "ProvisioningProfileInfoModel \<Rightarrow> string list \<Rightarrow> bool" where
  "provisionsDevices profile deviceUDIDs =
     (if ProvisionsAllDevices profile \<or> length deviceUDIDs = 0 then True
      else if length (ProvisionedDevices profile) = 0 then False
      else provisionsDevices_loop (ProvisionedDevices profile) deviceUDIDs)"

section \<open>Entitlement comparison\<close>

text \<open>
  The body of the loop of \<open>containsAllAppEntitlements\<close> for one visited entry:
  \<open>False\<close> is the early \<^verbatim>\<open>return false\<close>, \<open>True\<close> lets the loop go on.
\<close>

definition containsAllAppEntitlements_body ::
  "collaborators \<Rightarrow> Entitlements \<Rightarrow> Entitlements \<Rightarrow> string \<Rightarrow> plist_value \<Rightarrow> bool" where
  "containsAllAppEntitlements_body c profileEntitlements appEntitlements key v =
     (let profileEntitlementValue = index profileEntitlements key
      in if key = ICloudIdentifiersEntitlementKey then
           (case FindMissingContainers c appEntitlements profileEntitlements of
              Inl err \<Rightarrow> False
            | Inr missingContainers \<Rightarrow> if length missingContainers > 0 then False else True)
         else if \<not> DeepEqual profileEntitlementValue (Some v) then False
         else True)"

fun containsAllAppEntitlements_loop ::
  "collaborators \<Rightarrow> Entitlements \<Rightarrow> Entitlements \<Rightarrow> bool \<Rightarrow> (string \<times> plist_value) list \<Rightarrow> bool" where
  "containsAllAppEntitlements_loop c profileEntitlements appEntitlements hasMissingEntitlement [] =
     (\<not> hasMissingEntitlement)"
| "containsAllAppEntitlements_loop c profileEntitlements appEntitlements hasMissingEntitlement
     ((key, v) # rest) =
     (if containsAllAppEntitlements_body c profileEntitlements appEntitlements key v
      then containsAllAppEntitlements_loop c profileEntitlements appEntitlements
             hasMissingEntitlement rest
      else False)"

definition containsAllAppEntitlements ::
  "collaborators \<Rightarrow> ProvisioningProfileInfoModel \<Rightarrow> Entitlements \<Rightarrow> bool" where
  "containsAllAppEntitlements c profile appEntitlements =
     (let profileEntitlements = Entitlements profile;
          hasMissingEntitlement = False
      in containsAllAppEntitlements_loop c profileEntitlements appEntitlements
           hasMissingEntitlement (range_entries appEntitlements))"

text \<open>The body of the loop of \<open>profileSupportsAppEntitlements\<close>, read the same way.\<close>

definition profileSupportsAppEntitlements_body ::
  "collaborators \<Rightarrow> Entitlements \<Rightarrow> Entitlements \<Rightarrow> string \<Rightarrow> plist_value \<Rightarrow> bool" where
  "profileSupportsAppEntitlements_body c profileEntitlements appEntitlements key v =
     (let profileEntitlementValue = index profileEntitlements key
      in if key = ICloudIdentifiersEntitlementKey then
           (case FindMissingContainers c appEntitlements profileEntitlements of
              Inl err \<Rightarrow> False
            | Inr missingContainers \<Rightarrow> if length missingContainers > 0 then False else True)
         else if \<not> DeepEqual profileEntitlementValue (Some v) then
           (if profileEntitlementValue = None then False
            else (case v of
                    PBool appBool \<Rightarrow>
                      (case profileEntitlementValue of
                         Some (PBool profileBool) \<Rightarrow>
                           (if appBool \<and> \<not> profileBool then False else True)
                       | _ \<Rightarrow> True)
                  | _ \<Rightarrow>
                      (if \<not> DeepEqual profileEntitlementValue (Some v) then False else True)))
         else True)"

fun profileSupportsAppEntitlements_loop ::
  "collaborators \<Rightarrow> Entitlements \<Rightarrow> Entitlements \<Rightarrow> (string \<times> plist_value) list \<Rightarrow> bool" where
  "profileSupportsAppEntitlements_loop c profileEntitlements appEntitlements [] = True"
| "profileSupportsAppEntitlements_loop c profileEntitlements appEntitlements ((key, v) # rest) =
     (if profileSupportsAppEntitlements_body c profileEntitlements appEntitlements key v
      then profileSupportsAppEntitlements_loop c profileEntitlements appEntitlements rest
      else False)"

definition profileSupportsAppEntitlements ::
  "collaborators \<Rightarrow> ProvisioningProfileInfoModel \<Rightarrow> Entitlements \<Rightarrow> bool" where
  "profileSupportsAppEntitlements c profile appEntitlements =
     (let profileEntitlements = Entitlements profile
      in profileSupportsAppEntitlements_loop c profileEntitlements appEntitlements
           (range_entries appEntitlements))"

section \<open>The matching engine\<close>

definition isProfileMatching ::
  "collaborators \<Rightarrow> time \<Rightarrow> ProvisioningProfileInfoModel \<Rightarrow> string \<Rightarrow> string \<Rightarrow> string \<Rightarrow>
     Entitlements \<Rightarrow> int \<Rightarrow> string list \<Rightarrow> string list \<Rightarrow> bool" where
  "isProfileMatching c now profile platform distributionType bundleID entitlements
     minProfileDaysValid certSerials deviceUDIDs =
     (if \<not> isActive c now profile minProfileDaysValid then False
      else if \<not> hasMatchingDistributionType profile distributionType then False
      else if \<not> hasMatchingBundleID profile bundleID then False
      else if \<not> hasMatchingPlatform c profile platform then False
      else if \<not> hasMatchingLocalCertificates profile certSerials then False
      else if \<not> containsAllAppEntitlements c profile entitlements then False
      else if \<not> provisionsDevices profile deviceUDIDs then False
      else if IsXcodeManaged c profile then False
      else True)"

definition isProfileMatchingWithSuperset ::
  "collaborators \<Rightarrow> time \<Rightarrow> ProvisioningProfileInfoModel \<Rightarrow> string \<Rightarrow> string \<Rightarrow> string \<Rightarrow>
     Entitlements \<Rightarrow> int \<Rightarrow> string list \<Rightarrow> string list \<Rightarrow> bool" where
  "isProfileMatchingWithSuperset c now profile platform distributionType bundleID entitlements
     minProfileDaysValid certSerials deviceUDIDs =
     (if \<not> isActive c now profile minProfileDaysValid then False
      else if \<not> hasMatchingDistributionType profile distributionType then False
      else if \<not> hasMatchingBundleID profile bundleID then False
      else if \<not> hasMatchingPlatform c profile platform then False
      else if \<not> hasMatchingLocalCertificates profile certSerials then False
      else if \<not> profileSupportsAppEntitlements c profile entitlements then False
      else if \<not> provisionsDevices profile deviceUDIDs then False
      else True)"

text \<open>
  \<open>findProfile\<close> reads the clock once for every profile it examines, through
  \<open>isActive\<close>. \<open>clock k\<close> is the instant of the \<open>k\<close>-th reading of the call, counted
  from 0; the two loops thread the count. A first loop that examines every profile
  in vain has made \<open>length localProfiles\<close> readings.
\<close>

fun findProfile_exact ::
  "collaborators \<Rightarrow> (nat \<Rightarrow> time) \<Rightarrow> nat \<Rightarrow> ProvisioningProfileInfoModel list \<Rightarrow> string \<Rightarrow>
     string \<Rightarrow> string \<Rightarrow> Entitlements \<Rightarrow> int \<Rightarrow> string list \<Rightarrow> string list \<Rightarrow>
     ProvisioningProfileInfoModel option" where
  "findProfile_exact c clock k [] platform distributionType bundleID entitlements
     minProfileDaysValid certSerials deviceUDIDs = None"
| "findProfile_exact c clock k (profile # rest) platform distributionType bundleID entitlements
     minProfileDaysValid certSerials deviceUDIDs =
     (if isProfileMatching c (clock k) profile platform distributionType bundleID entitlements
           minProfileDaysValid certSerials deviceUDIDs
      then Some profile
      else findProfile_exact c clock (Suc k) rest platform distributionType bundleID entitlements
             minProfileDaysValid certSerials deviceUDIDs)"

fun findProfile_superset ::
  "collaborators \<Rightarrow> (nat \<Rightarrow> time) \<Rightarrow> nat \<Rightarrow> ProvisioningProfileInfoModel list \<Rightarrow> string \<Rightarrow>
     string \<Rightarrow> string \<Rightarrow> Entitlements \<Rightarrow> int \<Rightarrow> string list \<Rightarrow> string list \<Rightarrow>
     ProvisioningProfileInfoModel option" where
  "findProfile_superset c clock k [] platform distributionType bundleID entitlements
     minProfileDaysValid certSerials deviceUDIDs = None"
| "findProfile_superset c clock k (profile # rest) platform distributionType bundleID entitlements
     minProfileDaysValid certSerials deviceUDIDs =
     (if isProfileMatchingWithSuperset c (clock k) profile platform distributionType bundleID
           entitlements minProfileDaysValid certSerials deviceUDIDs
      then Some profile
      else findProfile_superset c clock (Suc k) rest platform distributionType bundleID
             entitlements minProfileDaysValid certSerials deviceUDIDs)"

definition findProfile ::
  "collaborators \<Rightarrow> (nat \<Rightarrow> time) \<Rightarrow> ProvisioningProfileInfoModel list \<Rightarrow> string \<Rightarrow>
     string \<Rightarrow> string \<Rightarrow> Entitlements \<Rightarrow> int \<Rightarrow> string list \<Rightarrow> string list \<Rightarrow>
     ProvisioningProfileInfoModel option" where
  "findProfile c clock localProfiles platform distributionType bundleID entitlements
     minProfileDaysValid certSerials deviceUDIDs =
     (case findProfile_exact c clock 0 localProfiles platform distributionType bundleID
             entitlements minProfileDaysValid certSerials deviceUDIDs of
        Some profile \<Rightarrow> Some profile
      | None \<Rightarrow>
          findProfile_superset c clock (length localProfiles) localProfiles platform
            distributionType bundleID entitlements minProfileDaysValid certSerials deviceUDIDs)"

section \<open>Archive decomposition\<close>

text \<open>
  The archive code reads the file system and calls helpers of other packages and files
  (\<^verbatim>\<open>pathutil\<close>, \<^verbatim>\<open>plistutil\<close>, \<^verbatim>\<open>profileutil\<close>, \<^verbatim>\<open>filepath\<close>, and the package's own
  \<^verbatim>\<open>getEntitlements\<close> and \<^verbatim>\<open>executableNameFromInfoPlist\<close>). They are the fields of an
  environment, which is a parameter of every function below. A Go result pair
  \<^verbatim>\<open>(value, error)\<close> is a sum, \<open>Inl\<close> the error.
\<close>

record environment =
  IsPathExists :: "string \<Rightarrow> error + bool"
  NewPlistDataFromFile :: "string \<Rightarrow> error + PlistData"
  NewProvisioningProfileInfoFromFile :: "string \<Rightarrow> error + ProvisioningProfileInfoModel"
  Glob :: "string \<Rightarrow> error + string list"
  getEntitlements :: "string \<Rightarrow> string \<Rightarrow> error + PlistData"
  executableNameFromInfoPlist :: "PlistData \<Rightarrow> string"
  GetString :: "PlistData \<Rightarrow> string \<Rightarrow> string \<times> bool"
  GetMapStringInterface :: "PlistData \<Rightarrow> string \<Rightarrow> PlistData \<times> bool"
  Join :: "string list \<Rightarrow> string"
  EscapeGlobPath :: "string \<Rightarrow> string"
  Base :: "string \<Rightarrow> string"
  TrimSuffix :: "string \<Rightarrow> string \<Rightarrow> string"

fun message :: "error \<Rightarrow> string" where
  "message (Error m) = m"

record IosBaseApplication =
  app_Path :: string
  app_InfoPlist :: PlistData
  app_Entitlements :: PlistData
  app_ProvisioningProfile :: ProvisioningProfileInfoModel

definition BundleIdentifier :: "environment \<Rightarrow> 'a IosBaseApplication_scheme \<Rightarrow> string" where
  "BundleIdentifier env app = fst (GetString env (app_InfoPlist app) ''CFBundleIdentifier'')"

definition NewIosBaseApplication :: "environment \<Rightarrow> string \<Rightarrow> error + IosBaseApplication" where
  "NewIosBaseApplication env path =
     (let infoPlistPath = Join env [path, ''Info.plist'']
      in case IsPathExists env infoPlistPath of
           Inl err \<Rightarrow>
             Inl (Error (''failed to check if Info.plist exists at: '' @ infoPlistPath
                          @ '', error: '' @ message err))
         | Inr exist \<Rightarrow>
             if \<not> exist then Inl (Error (''Info.plist not exists at: '' @ infoPlistPath))
             else
               (case NewPlistDataFromFile env infoPlistPath of
                  Inl err \<Rightarrow> Inl err
                | Inr infoPlist \<Rightarrow>
                    (let provisioningProfilePath = Join env [path, ''embedded.mobileprovision'']
                     in case IsPathExists env provisioningProfilePath of
                          Inl err \<Rightarrow>
                            Inl (Error (''failed to check if profile exists at: ''
                                         @ provisioningProfilePath @ '', error: '' @ message err))
                        | Inr exist \<Rightarrow>
                            if \<not> exist
                            then Inl (Error (''profile not exists at: '' @ provisioningProfilePath))
                            else
                              (case NewProvisioningProfileInfoFromFile env provisioningProfilePath of
                                 Inl err \<Rightarrow> Inl err
                               | Inr provisioningProfile \<Rightarrow>
                                   (let executable = executableNameFromInfoPlist env infoPlist
                                    in case getEntitlements env path executable of
                                         Inl err \<Rightarrow> Inl err
                                       | Inr entitlements \<Rightarrow>
                                           Inr \<lparr>app_Path = path, app_InfoPlist = infoPlist,
                                                app_Entitlements = entitlements,
                                                app_ProvisioningProfile = provisioningProfile\<rparr>)))))"

text \<open>
  \<^verbatim>\<open>IosExtension\<close> and \<^verbatim>\<open>IosClipApplication\<close> are structs that embed the base
  application and add no field.
\<close>

type_synonym IosExtension = IosBaseApplication
type_synonym IosClipApplication = IosBaseApplication

definition NewIosExtension :: "environment \<Rightarrow> string \<Rightarrow> error + IosExtension" where
  "NewIosExtension env path =
     (case NewIosBaseApplication env path of Inl err \<Rightarrow> Inl err | Inr baseApp \<Rightarrow> Inr baseApp)"

record IosWatchApplication = IosBaseApplication +
  watch_Extensions :: "IosExtension list"

text \<open>
  The loop over the extension paths, written twice in the source (for the watch
  application and for the application): the first extension that cannot be built ends
  it with that error.
\<close>

fun NewIosExtensions_loop ::
  "environment \<Rightarrow> string list \<Rightarrow> IosExtension list \<Rightarrow> error + IosExtension list" where
  "NewIosExtensions_loop env [] extensions = Inr extensions"
| "NewIosExtensions_loop env (pth # pths) extensions =
     (case NewIosExtension env pth of
        Inl err \<Rightarrow> Inl err
      | Inr extension \<Rightarrow> NewIosExtensions_loop env pths (extensions @ [extension]))"

definition NewIosWatchApplication :: "environment \<Rightarrow> string \<Rightarrow> error + IosWatchApplication" where
  "NewIosWatchApplication env path =
     (case NewIosBaseApplication env path of
        Inl err \<Rightarrow> Inl err
      | Inr baseApp \<Rightarrow>
          (let pattern = Join env [EscapeGlobPath env path, ''PlugIns/*.appex'']
           in case Glob env pattern of
                Inl err \<Rightarrow>
                  Inl (Error (''failed to search for watch application's extensions using pattern: ''
                               @ pattern @ '', error: '' @ message err))
              | Inr pths \<Rightarrow>
                  (case NewIosExtensions_loop env pths [] of
                     Inl err \<Rightarrow> Inl err
                   | Inr extensions \<Rightarrow>
                       Inr (IosBaseApplication.extend baseApp
                              \<lparr>watch_Extensions = extensions\<rparr>))))"

definition NewIosClipApplication :: "environment \<Rightarrow> string \<Rightarrow> error + IosClipApplication" where
  "NewIosClipApplication env path =
     (case NewIosBaseApplication env path of Inl err \<Rightarrow> Inl err | Inr baseApp \<Rightarrow> Inr baseApp)"

record IosApplication = IosBaseApplication +
  WatchApplication :: "IosWatchApplication option"
  ClipApplication :: "IosClipApplication option"
  Extensions :: "IosExtension list"

text \<open>
  The three blocks of \<open>NewIosApplication\<close> that search for the watch application, the
  app-clip and the extensions. Each takes the first match of its search, if any.
\<close>

definition NewIosApplication_watch ::
  "environment \<Rightarrow> string \<Rightarrow> error + IosWatchApplication option" where
  "NewIosApplication_watch env path =
     (let pattern = Join env [EscapeGlobPath env path, ''Watch/*.app'']
      in case Glob env pattern of
           Inl err \<Rightarrow> Inl err
         | Inr pths \<Rightarrow>
             (case pths of
                [] \<Rightarrow> Inr None
              | watchPath # _ \<Rightarrow>
                  (case NewIosWatchApplication env watchPath of
                     Inl err \<Rightarrow> Inl err
                   | Inr app \<Rightarrow> Inr (Some app))))"

definition NewIosApplication_clip ::
  "environment \<Rightarrow> string \<Rightarrow> error + IosClipApplication option" where
  "NewIosApplication_clip env path =
     (let pattern = Join env [EscapeGlobPath env path, ''AppClips/*.app'']
      in case Glob env pattern of
           Inl err \<Rightarrow> Inl err
         | Inr pths \<Rightarrow>
             (case pths of
                [] \<Rightarrow> Inr None
              | clipPath # _ \<Rightarrow>
                  (case NewIosClipApplication env clipPath of
                     Inl err \<Rightarrow> Inl err
                   | Inr app \<Rightarrow> Inr (Some app))))"

definition NewIosApplication_extensions ::
  "environment \<Rightarrow> string \<Rightarrow> error + IosExtension list" where
  "NewIosApplication_extensions env path =
     (let pattern = Join env [EscapeGlobPath env path, ''PlugIns/*.appex'']
      in case Glob env pattern of
           Inl err \<Rightarrow>
             Inl (Error (''failed to search for watch application's extensions using pattern: ''
                          @ pattern @ '', error: '' @ message err))
         | Inr pths \<Rightarrow> NewIosExtensions_loop env pths [])"

definition NewIosApplication :: "environment \<Rightarrow> string \<Rightarrow> error + IosApplication" where
  "NewIosApplication env path =
     (case NewIosBaseApplication env path of
        Inl err \<Rightarrow> Inl err
      | Inr baseApp \<Rightarrow>
          (case NewIosApplication_watch env path of
             Inl err \<Rightarrow> Inl err
           | Inr watchApp \<Rightarrow>
               (case NewIosApplication_clip env path of
                  Inl err \<Rightarrow> Inl err
                | Inr clipApp \<Rightarrow>
                    (case NewIosApplication_extensions env path of
                       Inl err \<Rightarrow> Inl err
                     | Inr extensions \<Rightarrow>
                         Inr (IosBaseApplication.extend baseApp
                                \<lparr>WatchApplication = watchApp, ClipApplication = clipApp,
                                 Extensions = extensions\<rparr>)))))"

record IosArchive =
  archive_Path :: string
  archive_InfoPlist :: PlistData
  Application :: IosApplication

definition applicationFromPlist :: "environment \<Rightarrow> PlistData \<Rightarrow> string \<times> bool" where
  "applicationFromPlist env InfoPlist =
     (case GetMapStringInterface env InfoPlist ''ApplicationProperties'' of
        (properties, found) \<Rightarrow>
          if found then GetString env properties ''ApplicationPath'' else ('''', False))"

definition applicationFromArchive :: "environment \<Rightarrow> string \<Rightarrow> error + string" where
  "applicationFromArchive env path =
     (let pattern = Join env [EscapeGlobPath env path, ''Products/Applications/*.app'']
      in case Glob env pattern of
           Inl err \<Rightarrow> Inl err
         | Inr pths \<Rightarrow>
             (case pths of
                [] \<Rightarrow> Inl (Error (''failed to find main app, using pattern: '' @ pattern))
              | pth # _ \<Rightarrow> Inr pth))"

text \<open>The block of \<open>NewIosArchive\<close> that settles the path of the application.\<close>

definition NewIosArchive_appPath :: "environment \<Rightarrow> string \<Rightarrow> PlistData \<Rightarrow> error + string" where
  "NewIosArchive_appPath env path infoPlist =
     (case applicationFromPlist env infoPlist of
        (appRelativePathToProducts, found) \<Rightarrow>
          if found then Inr (Join env [path, ''Products'', appRelativePathToProducts])
          else applicationFromArchive env path)"

definition NewIosArchive :: "environment \<Rightarrow> string \<Rightarrow> error + IosArchive" where
  "NewIosArchive env path =
     (let infoPlistPath = Join env [path, ''Info.plist'']
      in case IsPathExists env infoPlistPath of
           Inl err \<Rightarrow>
             Inl (Error (''failed to check if Info.plist exists at: '' @ infoPlistPath
                          @ '', error: '' @ message err))
         | Inr exist \<Rightarrow>
             if \<not> exist then Inl (Error (''Info.plist not exists at: '' @ infoPlistPath))
             else
               (case NewPlistDataFromFile env infoPlistPath of
                  Inl err \<Rightarrow> Inl err
                | Inr infoPlist \<Rightarrow>
                    (case NewIosArchive_appPath env path infoPlist of
                       Inl err \<Rightarrow> Inl err
                     | Inr appPath \<Rightarrow>
                         (case IsPathExists env appPath of
                            Inl err \<Rightarrow>
                              Inl (Error (''failed to check if app exists, path: '' @ appPath
                                           @ '', error: '' @ message err))
                          | Inr exist \<Rightarrow>
                              if \<not> exist
                              then Inl (Error (''application not found on path: '' @ appPath
                                                @ '', error: %!s(<nil>)''))
                              else
                                (case NewIosApplication env appPath of
                                   Inl err \<Rightarrow> Inl err
                                 | Inr application \<Rightarrow>
                                     Inr \<lparr>archive_Path = path, archive_InfoPlist = infoPlist,
                                          Application = application\<rparr>)))))"

subsection \<open>Embedded frameworks\<close>

text \<open>
  The nil map and the empty map \<^verbatim>\<open>plistutil.PlistData{}\<close> are both the empty list. A
  map built by assignments \<^verbatim>\<open>m[k] = v\<close> is built by \<open>AList.update\<close>, which replaces
  the value of a key that is there and adds the key otherwise, so keys stay unique.
  Where the source ranges over such a map to copy it into another one, every entry
  goes under its own key, so the order of the visit does not show in the map that
  results; the model visits the entries in list order.
\<close>

definition extractFrameworkInfo :: "environment \<Rightarrow> string \<Rightarrow> string \<times> PlistData" where
  "extractFrameworkInfo env frameworkPath =
     (let provisioningProfilePath = Join env [frameworkPath, ''embedded.mobileprovision'']
      in case IsPathExists env provisioningProfilePath of
           Inl err \<Rightarrow> ('''', [])
         | Inr exist \<Rightarrow>
             if \<not> exist then ('''', [])
             else
               (let infoPlistPath = Join env [frameworkPath, ''Info.plist'']
                in case IsPathExists env infoPlistPath of
                     Inl err \<Rightarrow> ('''', [])
                   | Inr exist \<Rightarrow>
                       if \<not> exist then ('''', [])
                       else
                         (case NewPlistDataFromFile env infoPlistPath of
                            Inl err \<Rightarrow> ('''', [])
                          | Inr infoPlist \<Rightarrow>
                              (case GetString env infoPlist ''CFBundleIdentifier'' of
                                 (bundleID, ok) \<Rightarrow>
                                   if \<not> ok \<or> bundleID = '''' then ('''', [])
                                   else
                                     (let frameworkName = Base env frameworkPath;
                                          frameworkName = TrimSuffix env frameworkName ''.framework''
                                      in case getEntitlements env frameworkPath frameworkName of
                                           Inl err \<Rightarrow> (bundleID, [])
                                         | Inr entitlements \<Rightarrow> (bundleID, entitlements))))))"

definition getFrameworkBundleIDEntitlements ::
  "environment \<Rightarrow> IosArchive \<Rightarrow> (string \<times> PlistData) list" where
  "getFrameworkBundleIDEntitlements env archive =
     (let frameworkEntitlements = [];
          frameworksPath = Join env [app_Path (Application archive), ''Frameworks'']
      in case IsPathExists env frameworksPath of
           Inl err \<Rightarrow> frameworkEntitlements
         | Inr exist \<Rightarrow>
             if \<not> exist then frameworkEntitlements
             else
               (let pattern = Join env [EscapeGlobPath env frameworksPath, ''*.framework'']
                in case Glob env pattern of
                     Inl err \<Rightarrow> frameworkEntitlements
                   | Inr frameworks \<Rightarrow>
                       fold (\<lambda>frameworkPath frameworkEntitlements.
                               case extractFrameworkInfo env frameworkPath of
                                 (bundleID, entitlements) \<Rightarrow>
                                   if bundleID \<noteq> ''''
                                   then AList.update bundleID entitlements frameworkEntitlements
                                   else frameworkEntitlements)
                            frameworks frameworkEntitlements))"

text \<open>
  The zero value \<^verbatim>\<open>profileutil.ProvisioningProfileInfoModel{}\<close> that
  \<open>extractFrameworkProfileInfo\<close> returns beside an empty bundle ID.
\<close>

definition zero_ProvisioningProfileInfoModel :: ProvisioningProfileInfoModel where
  "zero_ProvisioningProfileInfoModel =
     \<lparr>Name = '''', TeamID = '''', BundleID = '''', ExportType = '''', ProvisionedDevices = [],
      DeveloperCertificates = [], ExpirationDate = 0, Entitlements = [],
      ProvisionsAllDevices = False, Type = ''''\<rparr>"

definition extractFrameworkProfileInfo ::
  "environment \<Rightarrow> string \<Rightarrow> string \<times> ProvisioningProfileInfoModel" where
  "extractFrameworkProfileInfo env frameworkPath =
     (let provisioningProfilePath = Join env [frameworkPath, ''embedded.mobileprovision'']
      in case IsPathExists env provisioningProfilePath of
           Inl err \<Rightarrow> ('''', zero_ProvisioningProfileInfoModel)
         | Inr exist \<Rightarrow>
             if \<not> exist then ('''', zero_ProvisioningProfileInfoModel)
             else
               (let infoPlistPath = Join env [frameworkPath, ''Info.plist'']
                in case IsPathExists env infoPlistPath of
                     Inl err \<Rightarrow> ('''', zero_ProvisioningProfileInfoModel)
                   | Inr exist \<Rightarrow>
                       if \<not> exist then ('''', zero_ProvisioningProfileInfoModel)
                       else
                         (case NewPlistDataFromFile env infoPlistPath of
                            Inl err \<Rightarrow> ('''', zero_ProvisioningProfileInfoModel)
                          | Inr infoPlist \<Rightarrow>
                              (case GetString env infoPlist ''CFBundleIdentifier'' of
                                 (bundleID, ok) \<Rightarrow>
                                   if \<not> ok \<or> bundleID = ''''
                                   then ('''', zero_ProvisioningProfileInfoModel)
                                   else
                                     (case NewProvisioningProfileInfoFromFile env
                                             provisioningProfilePath of
                                        Inl err \<Rightarrow> ('''', zero_ProvisioningProfileInfoModel)
                                      | Inr profile \<Rightarrow> (bundleID, profile))))))"

definition getFrameworkBundleIDProfiles ::
  "environment \<Rightarrow> IosArchive \<Rightarrow> (string \<times> ProvisioningProfileInfoModel) list" where
  "getFrameworkBundleIDProfiles env archive =
     (let frameworkProfiles = [];
          frameworksPath = Join env [app_Path (Application archive), ''Frameworks'']
      in case IsPathExists env frameworksPath of
           Inl err \<Rightarrow> frameworkProfiles
         | Inr exist \<Rightarrow>
             if \<not> exist then frameworkProfiles
             else
               (let pattern = Join env [EscapeGlobPath env frameworksPath, ''*.framework'']
                in case Glob env pattern of
                     Inl err \<Rightarrow> frameworkProfiles
                   | Inr frameworks \<Rightarrow>
                       fold (\<lambda>frameworkPath frameworkProfiles.
                               case extractFrameworkProfileInfo env frameworkPath of
                                 (bundleID, profile) \<Rightarrow>
                                   if bundleID \<noteq> ''''
                                   then AList.update bundleID profile frameworkProfiles
                                   else frameworkProfiles)
                            frameworks frameworkProfiles))"

subsection \<open>The aggregated maps\<close>

definition BundleIDEntitlementsMap ::
  "environment \<Rightarrow> IosArchive \<Rightarrow> (string \<times> PlistData) list" where
  "BundleIDEntitlementsMap env archive =
     (let bundleIDEntitlementsMap = [];
          bundleID = BundleIdentifier env (Application archive);
          bundleIDEntitlementsMap =
            AList.update bundleID (app_Entitlements (Application archive)) bundleIDEntitlementsMap;
          bundleIDEntitlementsMap =
            fold (\<lambda>plugin m. AList.update (BundleIdentifier env plugin) (app_Entitlements plugin) m)
                 (Extensions (Application archive)) bundleIDEntitlementsMap;
          bundleIDEntitlementsMap =
            (case WatchApplication (Application archive) of
               None \<Rightarrow> bundleIDEntitlementsMap
             | Some watchApplication \<Rightarrow>
                 fold (\<lambda>plugin m.
                         AList.update (BundleIdentifier env plugin) (app_Entitlements plugin) m)
                      (watch_Extensions watchApplication)
                      (AList.update (BundleIdentifier env watchApplication)
                         (app_Entitlements watchApplication) bundleIDEntitlementsMap));
          bundleIDEntitlementsMap =
            (case ClipApplication (Application archive) of
               None \<Rightarrow> bundleIDEntitlementsMap
             | Some clipApplication \<Rightarrow>
                 AList.update (BundleIdentifier env clipApplication)
                   (app_Entitlements clipApplication) bundleIDEntitlementsMap);
          frameworkEntitlements = getFrameworkBundleIDEntitlements env archive
      in fold (\<lambda>(bundleID, entitlements) m. AList.update bundleID entitlements m)
              frameworkEntitlements bundleIDEntitlementsMap)"

definition BundleIDProfileInfoMap ::
  "environment \<Rightarrow> IosArchive \<Rightarrow> (string \<times> ProvisioningProfileInfoModel) list" where
  "BundleIDProfileInfoMap env archive =
     (let bundleIDProfileMap = [];
          bundleID = BundleIdentifier env (Application archive);
          bundleIDProfileMap =
            AList.update bundleID (app_ProvisioningProfile (Application archive)) bundleIDProfileMap;
          bundleIDProfileMap =
            fold (\<lambda>plugin m.
                    AList.update (BundleIdentifier env plugin) (app_ProvisioningProfile plugin) m)
                 (Extensions (Application archive)) bundleIDProfileMap;
          bundleIDProfileMap =
            (case WatchApplication (Application archive) of
               None \<Rightarrow> bundleIDProfileMap
             | Some watchApplication \<Rightarrow>
                 fold (\<lambda>plugin m.
                         AList.update (BundleIdentifier env plugin)
                           (app_ProvisioningProfile plugin) m)
                      (watch_Extensions watchApplication)
                      (AList.update (BundleIdentifier env watchApplication)
                         (app_ProvisioningProfile watchApplication) bundleIDProfileMap));
          bundleIDProfileMap =
            (case ClipApplication (Application archive) of
               None \<Rightarrow> bundleIDProfileMap
             | Some clipApplication \<Rightarrow>
                 AList.update (BundleIdentifier env clipApplication)
                   (app_ProvisioningProfile clipApplication) bundleIDProfileMap);
          frameworkProfiles = getFrameworkBundleIDProfiles env archive
      in fold (\<lambda>(bundleID, profile) m. AList.update bundleID profile m)
              frameworkProfiles bundleIDProfileMap)"

text \<open>
  \<open>TeamID\<close> returns from inside a \<^verbatim>\<open>range\<close> over the profile map, at the entry the
  runtime happens to visit first; Go leaves that choice open. \<open>archive_TeamID\<close>
  relates an archive to every result the call can return: the team of any entry, or
  the error when there is no entry to visit.
\<close>

inductive archive_TeamID :: "environment \<Rightarrow> IosArchive \<Rightarrow> error + string \<Rightarrow> bool" where
  visit: "(bundleID, profileInfo) \<in> set (BundleIDProfileInfoMap env archive) \<Longrightarrow>
            archive_TeamID env archive (Inr (TeamID profileInfo))"
| not_found: "BundleIDProfileInfoMap env archive = [] \<Longrightarrow>
            archive_TeamID env archive (Inl (Error ''team id not found''))"

code_pred archive_TeamID .

section \<open>Example data\<close>

text \<open>
  Modelled from the spec: \<^verbatim>\<open>autocodesign.FindMissingContainers\<close> is not among the
  sources; the spec has it compute "the containers required by the app but absent from
  the profile". It is used for the examples only; the theorems take the function as a
  parameter.
\<close>

definition iCloudContainers :: "Entitlements \<Rightarrow> string list" where
  "iCloudContainers e =
     (case index e ICloudIdentifiersEntitlementKey of
        Some (PArray vs) \<Rightarrow> concat (map (\<lambda>v. case v of PString s \<Rightarrow> [s] | _ \<Rightarrow> []) vs)
      | _ \<Rightarrow> [])"

definition spec_FindMissingContainers :: "Entitlements \<Rightarrow> Entitlements \<Rightarrow> error + string list" where
  "spec_FindMissingContainers projectEnts profileEnts =
     Inr (filter (\<lambda>container. \<not> contains (iCloudContainers profileEnts) container)
            (iCloudContainers projectEnts))"

text \<open>
  Example collaborators: a profile counts as tool-managed when its name starts with
  \<open>XC\<close>, a day has 24 hours, and lower-casing is that of the ASCII letters, which
  is what \<^verbatim>\<open>strings.ToLower\<close> does on the ASCII platform names of the examples.
\<close>

definition example_ToLower_char :: "char \<Rightarrow> char" where
  "example_ToLower_char ch =
     (case map_of (zip ''ABCDEFGHIJKLMNOPQRSTUVWXYZ'' ''abcdefghijklmnopqrstuvwxyz'') ch of
        Some l \<Rightarrow> l
      | None \<Rightarrow> ch)"

definition example_collaborators :: collaborators where
  "example_collaborators =
     \<lparr>FindMissingContainers = spec_FindMissingContainers,
      IsXcodeManaged = (\<lambda>profile. take 2 (Name profile) = ''XC''),
      AddDate = (\<lambda>t years months days. t + days * 86400000000000),
      ToLower = map example_ToLower_char\<rparr>"

text \<open>An example clock: the call starts at instant 0 and every reading is 1 ns later.\<close>

definition example_clock :: "nat \<Rightarrow> time" where
  "example_clock k = int k"

text \<open>
  The profile of the spec's scenario: bundle ID \<open>com.acme.app\<close>, distribution
  \<open>app-store\<close>, one entitlement, valid for 30 more days, no device restriction.
\<close>

definition acme_profile :: ProvisioningProfileInfoModel where
  "acme_profile =
     \<lparr>Name = ''Acme'', TeamID = ''T1'', BundleID = ''com.acme.app'', ExportType = ''app-store'',
      ProvisionedDevices = [],
      DeveloperCertificates = [\<lparr>CommonName = ''Acme Dev'', Serial = ''S1''\<rparr>],
      ExpirationDate = 30 * 86400000000000,
      Entitlements = [(''aps-environment'', PString ''production'')],
      ProvisionsAllDevices = False, Type = ''ios''\<rparr>"

definition acme_entitlements :: Entitlements where
  "acme_entitlements = [(''aps-environment'', PString ''production'')]"

text \<open>The same profile, tool-managed, and the same profile, expired.\<close>

definition acme_managed_profile :: ProvisioningProfileInfoModel where
  "acme_managed_profile = acme_profile\<lparr>Name := ''XC Acme''\<rparr>"

definition acme_expired_profile :: ProvisioningProfileInfoModel where
  "acme_expired_profile = acme_profile\<lparr>ExpirationDate := 0\<rparr>"

text \<open>A profile for two devices, and one that grants a boolean capability.\<close>

definition device_profile :: ProvisioningProfileInfoModel where
  "device_profile = acme_profile\<lparr>ProvisionedDevices := [''D1'', ''D2'']\<rparr>"

definition domains_profile :: "bool \<Rightarrow> ProvisioningProfileInfoModel" where
  "domains_profile granted =
     acme_profile\<lparr>Entitlements := [(''associated-domains'', PBool granted)]\<rparr>"

text \<open>Profiles and an app that name iCloud containers.\<close>

definition icloud_entitlements :: "string list \<Rightarrow> Entitlements" where
  "icloud_entitlements containers =
     [(ICloudIdentifiersEntitlementKey, PArray (map PString containers))]"

definition icloud_profile :: "string list \<Rightarrow> ProvisioningProfileInfoModel" where
  "icloud_profile containers = acme_profile\<lparr>Entitlements := icloud_entitlements containers\<rparr>"

section \<open>The identities of an archive\<close>

text \<open>
  The reading of the two maps to compare the code with: the identities of an archive
  in the order of insertion, each with its bundle ID. The order is the primary
  application, its extensions, the watch application and its extensions, the
  app-clip, and the frameworks among those that the search of the frameworks
  directory has found. These definitions follow the words of the spec and use
  nothing of the archive code but the bundle ID of a built application. A framework
  is an identity when it carries an embedded provisioning profile and its manifest
  gives a bundle ID; its entitlements are those of its executable, and empty when
  they cannot be read. In the list for the profile map a framework stands only when
  its embedded profile can be decoded as well: that is where the code differs from
  the spec, which lists every framework that carries a profile.
\<close>

definition spec_bundle_identities ::
  "environment \<Rightarrow> (IosBaseApplication \<Rightarrow> 'v) \<Rightarrow> IosArchive \<Rightarrow> (string \<times> 'v) list" where
  "spec_bundle_identities env part archive =
     (let app = Application archive;
          entry = (\<lambda>identity. (BundleIdentifier env identity, part identity))
      in [(BundleIdentifier env app, part (IosBaseApplication.truncate app))]
         @ map entry (Extensions app)
         @ (case WatchApplication app of
              None \<Rightarrow> []
            | Some watchApplication \<Rightarrow>
                (BundleIdentifier env watchApplication,
                 part (IosBaseApplication.truncate watchApplication))
                # map entry (watch_Extensions watchApplication))
         @ (case ClipApplication app of
              None \<Rightarrow> []
            | Some clipApplication \<Rightarrow> [entry clipApplication]))"

definition spec_carries_profile :: "environment \<Rightarrow> string \<Rightarrow> bool" where
  "spec_carries_profile env frameworkPath =
     (IsPathExists env (Join env [frameworkPath, ''embedded.mobileprovision'']) = Inr True)"

definition spec_manifest_bundleID :: "environment \<Rightarrow> string \<Rightarrow> string option" where
  "spec_manifest_bundleID env frameworkPath =
     (let manifest = Join env [frameworkPath, ''Info.plist'']
      in if IsPathExists env manifest = Inr True
         then (case NewPlistDataFromFile env manifest of
                 Inl err \<Rightarrow> None
               | Inr plist \<Rightarrow>
                   (case GetString env plist ''CFBundleIdentifier'' of
                      (bundleID, ok) \<Rightarrow> if ok \<and> bundleID \<noteq> '''' then Some bundleID else None))
         else None)"

definition spec_framework_entitlements ::
  "environment \<Rightarrow> string \<Rightarrow> (string \<times> PlistData) option" where
  "spec_framework_entitlements env frameworkPath =
     (if spec_carries_profile env frameworkPath
      then (case spec_manifest_bundleID env frameworkPath of
              None \<Rightarrow> None
            | Some bundleID \<Rightarrow>
                Some (bundleID,
                      case getEntitlements env frameworkPath
                             (TrimSuffix env (Base env frameworkPath) ''.framework'') of
                        Inl err \<Rightarrow> []
                      | Inr entitlements \<Rightarrow> entitlements))
      else None)"

definition spec_framework_profile ::
  "environment \<Rightarrow> string \<Rightarrow> (string \<times> ProvisioningProfileInfoModel) option" where
  "spec_framework_profile env frameworkPath =
     (if spec_carries_profile env frameworkPath
      then (case spec_manifest_bundleID env frameworkPath of
              None \<Rightarrow> None
            | Some bundleID \<Rightarrow>
                (case NewProvisioningProfileInfoFromFile env
                        (Join env [frameworkPath, ''embedded.mobileprovision'']) of
                   Inl err \<Rightarrow> None
                 | Inr profile \<Rightarrow> Some (bundleID, profile)))
      else None)"

definition spec_identities_entitlements ::
  "environment \<Rightarrow> IosArchive \<Rightarrow> string list \<Rightarrow> (string \<times> PlistData) list" where
  "spec_identities_entitlements env archive frameworks =
     spec_bundle_identities env app_Entitlements archive
     @ List.map_filter (spec_framework_entitlements env) frameworks"

definition spec_identities_profiles ::
  "environment \<Rightarrow> IosArchive \<Rightarrow> string list \<Rightarrow> (string \<times> ProvisioningProfileInfoModel) list" where
  "spec_identities_profiles env archive frameworks =
     spec_bundle_identities env app_ProvisioningProfile archive
     @ List.map_filter (spec_framework_profile env) frameworks"

section \<open>An example archive\<close>

text \<open>
  The typed reads of \<^verbatim>\<open>plistutil.PlistData\<close>, for the example environment: the value
  of the key if it is there and has the type asked for.
\<close>

definition example_GetString :: "PlistData \<Rightarrow> string \<Rightarrow> string \<times> bool" where
  "example_GetString infoPlist forKey =
     (case index infoPlist forKey of Some (PString s) \<Rightarrow> (s, True) | _ \<Rightarrow> ('''', False))"

definition example_GetMapStringInterface :: "PlistData \<Rightarrow> string \<Rightarrow> PlistData \<times> bool" where
  "example_GetMapStringInterface infoPlist forKey =
     (case index infoPlist forKey of Some (PDict d) \<Rightarrow> (d, True) | _ \<Rightarrow> ([], False))"

fun example_Join :: "string list \<Rightarrow> string" where
  "example_Join [] = ''''"
| "example_Join [elem] = elem"
| "example_Join (elem # rest) = elem @ ''/'' @ example_Join rest"

text \<open>
  An archive \<open>A\<close> whose manifest names the application \<open>App\<close>. The application has a
  manifest, a profile and entitlements, and no watch application, no app-clip and no
  extension. Its frameworks directory holds \<open>F.framework\<close>, with a manifest and a
  profile of its own, whose entitlements cannot be read, and \<open>G.framework\<close>, which
  has no profile.
\<close>

definition example_plists :: "(string \<times> PlistData) list" where
  "example_plists =
     [(''A/Info.plist'',
         [(''ApplicationProperties'', PDict [(''ApplicationPath'', PString ''App'')])]),
      (''A/Products/App/Info.plist'', [(''CFBundleIdentifier'', PString ''com.acme.app'')]),
      (''A/Products/App/Frameworks/F.framework/Info.plist'',
         [(''CFBundleIdentifier'', PString ''com.acme.f'')]),
      (''A/Products/App/Frameworks/G.framework/Info.plist'',
         [(''CFBundleIdentifier'', PString ''com.acme.g'')])]"

definition example_profiles :: "(string \<times> ProvisioningProfileInfoModel) list" where
  "example_profiles =
     [(''A/Products/App/embedded.mobileprovision'', acme_profile),
      (''A/Products/App/Frameworks/F.framework/embedded.mobileprovision'',
         acme_profile\<lparr>BundleID := ''com.acme.f''\<rparr>)]"

definition example_environment :: environment where
  "example_environment =
     \<lparr>IsPathExists = (\<lambda>path.
        Inr (path \<in> set (map fst example_plists @ map fst example_profiles
                           @ [''A/Products/App'', ''A/Products/App/Frameworks'']))),
      NewPlistDataFromFile = (\<lambda>path.
        case map_of example_plists path of
          Some plist \<Rightarrow> Inr plist
        | None \<Rightarrow> Inl (Error ''no such file'')),
      NewProvisioningProfileInfoFromFile = (\<lambda>path.
        case map_of example_profiles path of
          Some profile \<Rightarrow> Inr profile
        | None \<Rightarrow> Inl (Error ''no such file'')),
      Glob = (\<lambda>pattern.
        Inr (if pattern = ''A/Products/App/Frameworks/*.framework''
             then [''A/Products/App/Frameworks/F.framework'',
                   ''A/Products/App/Frameworks/G.framework'']
             else [])),
      getEntitlements = (\<lambda>path executable.
        if path = ''A/Products/App'' then Inr acme_entitlements
        else Inl (Error ''no entitlements'')),
      executableNameFromInfoPlist = (\<lambda>infoPlist.
        fst (example_GetString infoPlist ''CFBundleExecutable'')),
      GetString = example_GetString,
      GetMapStringInterface = example_GetMapStringInterface,
      Join = example_Join,
      EscapeGlobPath = (\<lambda>path. path),
      Base = (\<lambda>path. rev (takeWhile (\<lambda>ch. ch \<noteq> CHR ''/'') (rev path))),
      TrimSuffix = (\<lambda>s suffix.
        if length suffix \<le> length s \<and> drop (length s - length suffix) s = suffix
        then take (length s - length suffix) s else s)\<rparr>"

definition example_application :: IosApplication where
  "example_application =
     \<lparr>app_Path = ''A/Products/App'',
      app_InfoPlist = [(''CFBundleIdentifier'', PString ''com.acme.app'')],
      app_Entitlements = acme_entitlements,
      app_ProvisioningProfile = acme_profile,
      WatchApplication = None, ClipApplication = None, Extensions = []\<rparr>"

definition example_archive :: IosArchive where
  "example_archive =
     \<lparr>archive_Path = ''A'',
      archive_InfoPlist =
        [(''ApplicationProperties'', PDict [(''ApplicationPath'', PString ''App'')])],
      Application = example_application\<rparr>"

text \<open>
  The same file system without the manifest of the application, and without its
  profile.
\<close>

definition example_environment_without :: "string \<Rightarrow> environment" where
  "example_environment_without missing =
     example_environment\<lparr>IsPathExists := (\<lambda>path.
        if path = missing then Inr False else IsPathExists example_environment path)\<rparr>"



text \<open>
  An archive value with an extension that has the bundle ID of the application, and
  other entitlements and another profile.
\<close>

definition example_clash_archive :: IosArchive where
  "example_clash_archive =
     example_archive\<lparr>Application := example_application\<lparr>Extensions :=
       [\<lparr>app_Path = ''A/Products/App/PlugIns/E.appex'',
         app_InfoPlist = [(''CFBundleIdentifier'', PString ''com.acme.app'')],
         app_Entitlements = [],
         app_ProvisioningProfile = acme_managed_profile\<rparr>]\<rparr>\<rparr>"

section \<open>Helper lemmas\<close>

lemma contains_iff: "contains xs v = (v \<in> set xs)"
  by (induction xs) auto

lemma IsStringInSlice_iff: "IsStringInSlice v xs = (v \<in> set xs)"
  by (induction xs) auto

lemma provisionsDevices_loop_iff:
  "provisionsDevices_loop provisioned udids = (set udids \<subseteq> set provisioned)"
  by (induction udids) (auto simp: contains_iff)

lemma hasMatchingLocalCertificates_loop_iff:
  "hasMatchingLocalCertificates_loop pcs serials = (set serials \<subseteq> set pcs)"
  by (induction serials) (auto simp: IsStringInSlice_iff)

lemma findProfile_exact_first:
  "i < length ps \<Longrightarrow>
   isProfileMatching c (clock (k + i)) (ps ! i) pl dt b e d cs ds \<Longrightarrow>
   (\<forall>j<i. \<not> isProfileMatching c (clock (k + j)) (ps ! j) pl dt b e d cs ds) \<Longrightarrow>
   findProfile_exact c clock k ps pl dt b e d cs ds = Some (ps ! i)"
proof (induction ps arbitrary: k i)
  case Nil
  then show ?case by simp
next
  case (Cons p ps)
  show ?case
  proof (cases i)
    case 0
    with Cons.prems show ?thesis by simp
  next
    case (Suc i')
    from Cons.prems(3) Suc have head: "\<not> isProfileMatching c (clock k) p pl dt b e d cs ds"
      by (metis add.right_neutral nth_Cons_0 zero_less_Suc)
    have "findProfile_exact c clock (Suc k) ps pl dt b e d cs ds = Some (ps ! i')"
    proof (rule Cons.IH)
      show "i' < length ps" using Cons.prems(1) Suc by simp
      show "isProfileMatching c (clock (Suc k + i')) (ps ! i') pl dt b e d cs ds"
        using Cons.prems(2) Suc by simp
      show "\<forall>j<i'. \<not> isProfileMatching c (clock (Suc k + j)) (ps ! j) pl dt b e d cs ds"
      proof (intro allI impI)
        fix j assume "j < i'"
        then have "Suc j < i" using Suc by simp
        with Cons.prems(3) have "\<not> isProfileMatching c (clock (k + Suc j)) ((p # ps) ! Suc j) pl dt b e d cs ds"
          by blast
        then show "\<not> isProfileMatching c (clock (Suc k + j)) (ps ! j) pl dt b e d cs ds" by simp
      qed
    qed
    with head Suc show ?thesis by simp
  qed
qed

lemma findProfile_exact_none:
  "(\<forall>j<length ps. \<not> isProfileMatching c (clock (k + j)) (ps ! j) pl dt b e d cs ds) \<Longrightarrow>
   findProfile_exact c clock k ps pl dt b e d cs ds = None"
proof (induction ps arbitrary: k)
  case Nil
  then show ?case by simp
next
  case (Cons p ps)
  from Cons.prems have head: "\<not> isProfileMatching c (clock k) p pl dt b e d cs ds"
    by (metis add.right_neutral length_greater_0_conv list.distinct(1) nth_Cons_0)
  have "findProfile_exact c clock (Suc k) ps pl dt b e d cs ds = None"
  proof (rule Cons.IH, intro allI impI)
    fix j assume "j < length ps"
    then have "Suc j < length (p # ps)" by simp
    with Cons.prems have "\<not> isProfileMatching c (clock (k + Suc j)) ((p # ps) ! Suc j) pl dt b e d cs ds"
      by blast
    then show "\<not> isProfileMatching c (clock (Suc k + j)) (ps ! j) pl dt b e d cs ds" by simp
  qed
  with head show ?case by simp
qed

lemma findProfile_exact_SomeD:
  "findProfile_exact c clock k ps pl dt b e d cs ds = Some p \<Longrightarrow>
   \<exists>i<length ps. ps ! i = p \<and> isProfileMatching c (clock (k + i)) p pl dt b e d cs ds"
proof (induction ps arbitrary: k)
  case Nil
  then show ?case by simp
next
  case (Cons q ps)
  show ?case
  proof (cases "isProfileMatching c (clock k) q pl dt b e d cs ds")
    case True
    with Cons.prems have "q = p" by simp
    with True show ?thesis by (intro exI[of _ 0]) simp
  next
    case False
    with Cons.prems have "findProfile_exact c clock (Suc k) ps pl dt b e d cs ds = Some p" by simp
    from Cons.IH[OF this] obtain i where "i < length ps" "ps ! i = p"
      "isProfileMatching c (clock (Suc k + i)) p pl dt b e d cs ds" by blast
    then show ?thesis by (intro exI[of _ "Suc i"]) simp
  qed
qed

lemma findProfile_superset_first:
  "i < length ps \<Longrightarrow>
   isProfileMatchingWithSuperset c (clock (k + i)) (ps ! i) pl dt b e d cs ds \<Longrightarrow>
   (\<forall>j<i. \<not> isProfileMatchingWithSuperset c (clock (k + j)) (ps ! j) pl dt b e d cs ds) \<Longrightarrow>
   findProfile_superset c clock k ps pl dt b e d cs ds = Some (ps ! i)"
proof (induction ps arbitrary: k i)
  case Nil
  then show ?case by simp
next
  case (Cons p ps)
  show ?case
  proof (cases i)
    case 0
    with Cons.prems show ?thesis by simp
  next
    case (Suc i')
    from Cons.prems(3) Suc have head: "\<not> isProfileMatchingWithSuperset c (clock k) p pl dt b e d cs ds"
      by (metis add.right_neutral nth_Cons_0 zero_less_Suc)
    have "findProfile_superset c clock (Suc k) ps pl dt b e d cs ds = Some (ps ! i')"
    proof (rule Cons.IH)
      show "i' < length ps" using Cons.prems(1) Suc by simp
      show "isProfileMatchingWithSuperset c (clock (Suc k + i')) (ps ! i') pl dt b e d cs ds"
        using Cons.prems(2) Suc by simp
      show "\<forall>j<i'. \<not> isProfileMatchingWithSuperset c (clock (Suc k + j)) (ps ! j) pl dt b e d cs ds"
      proof (intro allI impI)
        fix j assume "j < i'"
        then have "Suc j < i" using Suc by simp
        with Cons.prems(3) have "\<not> isProfileMatchingWithSuperset c (clock (k + Suc j)) ((p # ps) ! Suc j) pl dt b e d cs ds"
          by blast
        then show "\<not> isProfileMatchingWithSuperset c (clock (Suc k + j)) (ps ! j) pl dt b e d cs ds" by simp
      qed
    qed
    with head Suc show ?thesis by simp
  qed
qed

lemma findProfile_superset_none:
  "(\<forall>j<length ps. \<not> isProfileMatchingWithSuperset c (clock (k + j)) (ps ! j) pl dt b e d cs ds) \<Longrightarrow>
   findProfile_superset c clock k ps pl dt b e d cs ds = None"
proof (induction ps arbitrary: k)
  case Nil
  then show ?case by simp
next
  case (Cons p ps)
  from Cons.prems have head: "\<not> isProfileMatchingWithSuperset c (clock k) p pl dt b e d cs ds"
    by (metis add.right_neutral length_greater_0_conv list.distinct(1) nth_Cons_0)
  have "findProfile_superset c clock (Suc k) ps pl dt b e d cs ds = None"
  proof (rule Cons.IH, intro allI impI)
    fix j assume "j < length ps"
    then have "Suc j < length (p # ps)" by simp
    with Cons.prems have "\<not> isProfileMatchingWithSuperset c (clock (k + Suc j)) ((p # ps) ! Suc j) pl dt b e d cs ds"
      by blast
    then show "\<not> isProfileMatchingWithSuperset c (clock (Suc k + j)) (ps ! j) pl dt b e d cs ds" by simp
  qed
  with head show ?case by simp
qed

lemma findProfile_superset_SomeD:
  "findProfile_superset c clock k ps pl dt b e d cs ds = Some p \<Longrightarrow>
   \<exists>i<length ps. ps ! i = p \<and> isProfileMatchingWithSuperset c (clock (k + i)) p pl dt b e d cs ds"
proof (induction ps arbitrary: k)
  case Nil
  then show ?case by simp
next
  case (Cons q ps)
  show ?case
  proof (cases "isProfileMatchingWithSuperset c (clock k) q pl dt b e d cs ds")
    case True
    with Cons.prems have "q = p" by simp
    with True show ?thesis by (intro exI[of _ 0]) simp
  next
    case False
    with Cons.prems have "findProfile_superset c clock (Suc k) ps pl dt b e d cs ds = Some p" by simp
    from Cons.IH[OF this] obtain i where "i < length ps" "ps ! i = p"
      "isProfileMatchingWithSuperset c (clock (Suc k + i)) p pl dt b e d cs ds" by blast
    then show ?thesis by (intro exI[of _ "Suc i"]) simp
  qed
qed

lemma set_range_entries: "set (range_entries m) = {(key, v). index m key = Some v}"
proof -
  have "set (AList.clearjunk m) = Map.graph (map_of m)"
    by (simp add: graph_map_of)
  then show ?thesis
    by (auto simp: range_entries_def index_def Map.graph_def)
qed

lemma containsAllAppEntitlements_loop_iff:
  "containsAllAppEntitlements_loop c pe ae False es
     = (\<forall>(key, v) \<in> set es. containsAllAppEntitlements_body c pe ae key v)"
  by (induction es) (auto split: if_splits)

lemma profileSupportsAppEntitlements_loop_iff:
  "profileSupportsAppEntitlements_loop c pe ae es
     = (\<forall>(key, v) \<in> set es. profileSupportsAppEntitlements_body c pe ae key v)"
  by (induction es) (auto split: if_splits)

lemma containsAllAppEntitlements_iff:
  "containsAllAppEntitlements c profile ae
     = (\<forall>key v. index ae key = Some v \<longrightarrow>
          containsAllAppEntitlements_body c (Entitlements profile) ae key v)"
  by (auto simp: containsAllAppEntitlements_def containsAllAppEntitlements_loop_iff
        set_range_entries)

lemma profileSupportsAppEntitlements_iff:
  "profileSupportsAppEntitlements c profile ae
     = (\<forall>key v. index ae key = Some v \<longrightarrow>
          profileSupportsAppEntitlements_body c (Entitlements profile) ae key v)"
  by (auto simp: profileSupportsAppEntitlements_def profileSupportsAppEntitlements_loop_iff
        set_range_entries)

lemma body_exact_imp_superset:
  "containsAllAppEntitlements_body c pe ae key v \<Longrightarrow>
   profileSupportsAppEntitlements_body c pe ae key v"
  by (auto simp: containsAllAppEntitlements_body_def profileSupportsAppEntitlements_body_def
        Let_def split: sum.splits if_splits)

lemma containsAll_imp_supports:
  "containsAllAppEntitlements c profile ae \<Longrightarrow> profileSupportsAppEntitlements c profile ae"
  by (simp add: containsAllAppEntitlements_iff profileSupportsAppEntitlements_iff
        body_exact_imp_superset)

lemma isProfileMatching_imp_superset:
  "isProfileMatching c now profile pl dt b e d cs ds \<Longrightarrow>
   isProfileMatchingWithSuperset c now profile pl dt b e d cs ds"
  by (auto simp: isProfileMatching_def isProfileMatchingWithSuperset_def
        containsAll_imp_supports split: if_splits)

lemma isProfileMatching_active:
  "isProfileMatching c now profile pl dt b e d cs ds \<Longrightarrow> isActive c now profile d"
  by (auto simp: isProfileMatching_def split: if_splits)

lemma isProfileMatchingWithSuperset_active:
  "isProfileMatchingWithSuperset c now profile pl dt b e d cs ds \<Longrightarrow> isActive c now profile d"
  by (auto simp: isProfileMatchingWithSuperset_def split: if_splits)

lemma isProfileMatching_not_managed:
  "isProfileMatching c now profile pl dt b e d cs ds \<Longrightarrow> \<not> IsXcodeManaged c profile"
  by (auto simp: isProfileMatching_def split: if_splits)

subsection \<open>Maps built by assignment\<close>

lemma map_of_rev_distinct: "distinct (map fst xs) \<Longrightarrow> map_of (rev xs) = map_of xs"
proof (induction xs)
  case Nil
  then show ?case by simp
next
  case (Cons x xs)
  obtain k v where x: "x = (k, v)" by (cases x)
  with Cons.prems have "k \<notin> dom (map_of xs)"
    by (simp add: dom_map_of_conv_image_fst)
  then have "dom (map_of xs) \<inter> dom [k \<mapsto> v] = {}" by simp
  then have "map_of xs ++ [k \<mapsto> v] = [k \<mapsto> v] ++ map_of xs"
    by (rule map_add_comm)
  moreover have "map_of (rev xs) = map_of xs" using Cons by simp
  ultimately show ?case using x by simp
qed

lemma map_of_fold_update:
  "map_of (fold (\<lambda>x m. AList.update (f x) (g x) m) xs m0)
     = map_of m0 ++ map_of (rev (map (\<lambda>x. (f x, g x)) xs))"
proof (induction xs arbitrary: m0)
  case Nil
  then show ?case by simp
next
  case (Cons x xs)
  have "map_of (fold (\<lambda>x m. AList.update (f x) (g x) m) (x # xs) m0)
          = map_of (AList.update (f x) (g x) m0) ++ map_of (rev (map (\<lambda>x. (f x, g x)) xs))"
    using Cons.IH by simp
  also have "\<dots> = (map_of m0 ++ [f x \<mapsto> g x]) ++ map_of (rev (map (\<lambda>x. (f x, g x)) xs))"
    by (simp add: update_conv')
  also have "\<dots> = map_of m0 ++ map_of (rev (map (\<lambda>x. (f x, g x)) (x # xs)))"
    by simp
  finally show ?case .
qed

lemma map_of_fold_update_pairs:
  "map_of (fold (\<lambda>(k, v) m. AList.update k v m) xs m0) = map_of m0 ++ map_of (rev xs)"
proof (induction xs arbitrary: m0)
  case Nil
  then show ?case by simp
next
  case (Cons x xs)
  obtain k v where x: "x = (k, v)" by (cases x)
  have "map_of (AList.update k v m0) ++ map_of (rev xs)
          = map_of m0 ++ ([k \<mapsto> v] ++ map_of (rev xs))"
    by (simp add: update_conv')
  with x Cons.IH show ?case by simp
qed


lemma distinct_fold_update:
  "distinct (map fst m0) \<Longrightarrow>
   distinct (map fst (fold (\<lambda>x m. AList.update (f x) (g x) m) xs m0))"
  by (induction xs arbitrary: m0) (simp_all add: distinct_update)

lemma distinct_fold_update_pairs:
  "distinct (map fst m0) \<Longrightarrow> distinct (map fst (fold (\<lambda>(k, v) m. AList.update k v m) xs m0))"
  by (induction xs arbitrary: m0) (auto simp: distinct_update)

lemma distinct_fold_update_nonempty:
  "distinct (map fst m0) \<Longrightarrow>
   distinct (map fst (fold (\<lambda>x m. case h x of (k, v) \<Rightarrow>
                                      if k \<noteq> z then AList.update k v m else m) xs m0))"
  by (induction xs arbitrary: m0) (auto simp: distinct_update split: prod.splits)


subsection \<open>The framework maps\<close>











lemma getFrameworkBundleIDProfiles_distinct:
  "distinct (map fst (getFrameworkBundleIDProfiles env archive))"
  by (simp add: getFrameworkBundleIDProfiles_def Let_def distinct_fold_update_nonempty
        split: sum.splits)

subsection \<open>The aggregated maps\<close>


lemma BundleIDProfileInfoMap_parts:
  "map_of (BundleIDProfileInfoMap env archive)
     = map_of (rev (spec_bundle_identities env app_ProvisioningProfile archive))
       ++ map_of (getFrameworkBundleIDProfiles env archive)"
proof -
  have "map_of (rev (getFrameworkBundleIDProfiles env archive))
          = map_of (getFrameworkBundleIDProfiles env archive)"
    using getFrameworkBundleIDProfiles_distinct by (rule map_of_rev_distinct)
  then show ?thesis
    by (simp add: BundleIDProfileInfoMap_def spec_bundle_identities_def Let_def
          map_of_fold_update_pairs map_of_fold_update update_conv'
          IosBaseApplication.truncate_def rev_map split: option.splits)
qed


lemma BundleIDProfileInfoMap_distinct:
  "distinct (map fst (BundleIDProfileInfoMap env archive))"
  by (simp add: BundleIDProfileInfoMap_def Let_def distinct_fold_update_pairs
        distinct_fold_update distinct_update split: option.splits)


lemma keys_of_map_of_parts:
  "map_of xs = map_of ys ++ map_of zs \<Longrightarrow> fst ` set xs = fst ` set ys \<union> fst ` set zs"
proof -
  assume "map_of xs = map_of ys ++ map_of zs"
  then have "dom (map_of xs) = dom (map_of ys) \<union> dom (map_of zs)"
    by (simp add: Un_commute)
  then show ?thesis by (simp add: dom_map_of_conv_image_fst)
qed

lemma spec_bundle_identities_primary:
  "BundleIdentifier env (Application archive)
     \<in> fst ` set (spec_bundle_identities env part archive)"
  by (simp add: spec_bundle_identities_def Let_def)






lemma BundleIDProfileInfoMap_has_primary:
  "BundleIdentifier env (Application archive) \<in> fst ` set (BundleIDProfileInfoMap env archive)"
  using keys_of_map_of_parts [OF BundleIDProfileInfoMap_parts, of env archive]
    spec_bundle_identities_primary [of env archive app_ProvisioningProfile]
  by simp





subsection \<open>The loop over the extensions\<close>


lemmas matching_defs =
  findProfile_def isProfileMatching_def isProfileMatchingWithSuperset_def isActive_def
  hasMatchingDistributionType_def hasMatchingBundleID_def hasMatchingPlatform_def
  hasMatchingLocalCertificates_def provisionsDevices_def
  containsAllAppEntitlements_def containsAllAppEntitlements_body_def
  profileSupportsAppEntitlements_def profileSupportsAppEntitlements_body_def
  range_entries_def index_def DeepEqual_def ICloudIdentifiersEntitlementKey_def

lemmas example_defs =
  example_collaborators_def example_ToLower_char_def example_clock_def acme_profile_def
  acme_entitlements_def
  acme_managed_profile_def acme_expired_profile_def device_profile_def domains_profile_def
  icloud_entitlements_def icloud_profile_def spec_FindMissingContainers_def
  iCloudContainers_def

section \<open>The two passes of findProfile\<close>

text \<open>
  C1: \<open>findProfile\<close> examines the profiles in input order with the exact-match
  predicate and returns the first one that satisfies it; only if none does, it examines
  the same list again with the superset predicate and returns the first match; if no
  profile matches in either pass, the result is the no-match value \<open>None\<close>, not an
  error. Profile \<open>i\<close> is examined at clock reading \<open>i\<close> in the first pass and at
  reading \<open>length localProfiles + i\<close> in the second.
\<close>

theorem findProfile_two_passes:
  fixes c :: collaborators and clock :: "nat \<Rightarrow> time"
    and localProfiles :: "ProvisioningProfileInfoModel list"
    and platform distributionType bundleID :: string and entitlements :: Entitlements
    and minProfileDaysValid :: int and certSerials deviceUDIDs :: "string list"
  defines "exact \<equiv> \<lambda>i. isProfileMatching c (clock i) (localProfiles ! i) platform
             distributionType bundleID entitlements minProfileDaysValid certSerials deviceUDIDs"
    and "superset \<equiv> \<lambda>i. isProfileMatchingWithSuperset c (clock (length localProfiles + i))
             (localProfiles ! i) platform distributionType bundleID entitlements
             minProfileDaysValid certSerials deviceUDIDs"
    and "found \<equiv> findProfile c clock localProfiles platform distributionType bundleID
             entitlements minProfileDaysValid certSerials deviceUDIDs"
  shows "(i < length localProfiles \<and> exact i \<and> (\<forall>j<i. \<not> exact j)
            \<longrightarrow> found = Some (localProfiles ! i))
       \<and> ((\<forall>j<length localProfiles. \<not> exact j)
            \<and> i < length localProfiles \<and> superset i \<and> (\<forall>j<i. \<not> superset j)
            \<longrightarrow> found = Some (localProfiles ! i))
       \<and> ((\<forall>j<length localProfiles. \<not> exact j) \<and> (\<forall>j<length localProfiles. \<not> superset j)
            \<longrightarrow> found = None)"
proof (intro conjI impI)
  assume "i < length localProfiles \<and> exact i \<and> (\<forall>j<i. \<not> exact j)"
  then have "findProfile_exact c clock 0 localProfiles platform distributionType bundleID
               entitlements minProfileDaysValid certSerials deviceUDIDs = Some (localProfiles ! i)"
    unfolding exact_def by (intro findProfile_exact_first) simp_all
  then show "found = Some (localProfiles ! i)"
    by (simp add: found_def findProfile_def)
next
  assume h: "(\<forall>j<length localProfiles. \<not> exact j)
             \<and> i < length localProfiles \<and> superset i \<and> (\<forall>j<i. \<not> superset j)"
  then have none: "findProfile_exact c clock 0 localProfiles platform distributionType bundleID
               entitlements minProfileDaysValid certSerials deviceUDIDs = None"
    unfolding exact_def by (intro findProfile_exact_none) simp
  from h have "findProfile_superset c clock (length localProfiles) localProfiles platform
               distributionType bundleID entitlements minProfileDaysValid certSerials deviceUDIDs
               = Some (localProfiles ! i)"
    unfolding superset_def by (intro findProfile_superset_first) simp_all
  with none show "found = Some (localProfiles ! i)"
    by (simp add: found_def findProfile_def)
next
  assume h: "(\<forall>j<length localProfiles. \<not> exact j) \<and> (\<forall>j<length localProfiles. \<not> superset j)"
  then have none: "findProfile_exact c clock 0 localProfiles platform distributionType bundleID
               entitlements minProfileDaysValid certSerials deviceUDIDs = None"
    unfolding exact_def by (intro findProfile_exact_none) simp
  from h have "findProfile_superset c clock (length localProfiles) localProfiles platform
               distributionType bundleID entitlements minProfileDaysValid certSerials deviceUDIDs
               = None"
    unfolding superset_def by (intro findProfile_superset_none) simp
  with none show "found = None"
    by (simp add: found_def findProfile_def)
qed

text \<open>
  The three cases on the example data: the exact match in second place wins over the
  tool-managed profile in first place, which only the second pass accepts; without an
  exact match the second pass returns the first profile it accepts; an expired profile
  alone gives no match.
\<close>

theorem findProfile_two_passes_witness:
  "findProfile example_collaborators example_clock [acme_managed_profile, acme_profile]
     ''iOS'' ''app-store'' ''com.acme.app'' acme_entitlements 7 [''S1''] [] = Some acme_profile
   \<and> findProfile example_collaborators example_clock [acme_expired_profile, acme_managed_profile]
     ''iOS'' ''app-store'' ''com.acme.app'' acme_entitlements 7 [''S1''] []
       = Some acme_managed_profile
   \<and> findProfile example_collaborators example_clock [acme_expired_profile]
     ''iOS'' ''app-store'' ''com.acme.app'' acme_entitlements 7 [''S1''] [] = None"
proof (intro conjI)
  show "findProfile example_collaborators example_clock [acme_managed_profile, acme_profile]
     ''iOS'' ''app-store'' ''com.acme.app'' acme_entitlements 7 [''S1''] [] = Some acme_profile"
    using findProfile_two_passes [where i = 1 and c = example_collaborators
        and clock = example_clock and localProfiles = "[acme_managed_profile, acme_profile]"
        and platform = "''iOS''" and distributionType = "''app-store''"
        and bundleID = "''com.acme.app''" and entitlements = acme_entitlements
        and minProfileDaysValid = 7 and certSerials = "[''S1'']" and deviceUDIDs = "[]"]
    by (simp add: matching_defs example_defs)
  show "findProfile example_collaborators example_clock [acme_expired_profile, acme_managed_profile]
     ''iOS'' ''app-store'' ''com.acme.app'' acme_entitlements 7 [''S1''] []
       = Some acme_managed_profile"
    using findProfile_two_passes [where i = 1 and c = example_collaborators
        and clock = example_clock and localProfiles = "[acme_expired_profile, acme_managed_profile]"
        and platform = "''iOS''" and distributionType = "''app-store''"
        and bundleID = "''com.acme.app''" and entitlements = acme_entitlements
        and minProfileDaysValid = 7 and certSerials = "[''S1'']" and deviceUDIDs = "[]"]
    by (simp add: matching_defs example_defs)
  show "findProfile example_collaborators example_clock [acme_expired_profile]
     ''iOS'' ''app-store'' ''com.acme.app'' acme_entitlements 7 [''S1''] [] = None"
    using findProfile_two_passes [where i = 0 and c = example_collaborators
        and clock = example_clock and localProfiles = "[acme_expired_profile]"
        and platform = "''iOS''" and distributionType = "''app-store''"
        and bundleID = "''com.acme.app''" and entitlements = acme_entitlements
        and minProfileDaysValid = 7 and certSerials = "[''S1'']" and deviceUDIDs = "[]"]
    by (simp add: matching_defs example_defs)
qed

section \<open>Tool-managed profiles\<close>

text \<open>
  C2: a tool-managed profile is never accepted by the exact-match predicate, and so
  never returned by the first pass, whatever the other filters say. The superset
  predicate does not look at the flag: it accepts every profile that is active, has
  the distribution type, bundle ID and platform, covers the certificates, supports
  the entitlements in superset mode and provisions the devices. A tool-managed
  profile that is alone in the list and passes these filters at the second reading of
  the clock is what \<open>findProfile\<close> returns.
\<close>

theorem tool_managed_asymmetry:
  "(IsXcodeManaged c profile \<longrightarrow>
      \<not> isProfileMatching c now profile platform distributionType bundleID entitlements
          minProfileDaysValid certSerials deviceUDIDs
      \<and> findProfile_exact c clock k localProfiles platform distributionType bundleID
          entitlements minProfileDaysValid certSerials deviceUDIDs \<noteq> Some profile)
   \<and> (isActive c now profile minProfileDaysValid
       \<and> hasMatchingDistributionType profile distributionType
       \<and> hasMatchingBundleID profile bundleID
       \<and> hasMatchingPlatform c profile platform
       \<and> hasMatchingLocalCertificates profile certSerials
       \<and> profileSupportsAppEntitlements c profile entitlements
       \<and> provisionsDevices profile deviceUDIDs
      \<longrightarrow> isProfileMatchingWithSuperset c now profile platform distributionType bundleID
            entitlements minProfileDaysValid certSerials deviceUDIDs)
   \<and> (IsXcodeManaged c profile
       \<and> isProfileMatchingWithSuperset c (clock 1) profile platform distributionType bundleID
            entitlements minProfileDaysValid certSerials deviceUDIDs
      \<longrightarrow> findProfile c clock [profile] platform distributionType bundleID entitlements
            minProfileDaysValid certSerials deviceUDIDs = Some profile)"
proof (intro conjI impI)
  assume m: "IsXcodeManaged c profile"
  show "\<not> isProfileMatching c now profile platform distributionType bundleID entitlements
          minProfileDaysValid certSerials deviceUDIDs"
    using m isProfileMatching_not_managed by blast
  show "findProfile_exact c clock k localProfiles platform distributionType bundleID
          entitlements minProfileDaysValid certSerials deviceUDIDs \<noteq> Some profile"
  proof
    assume "findProfile_exact c clock k localProfiles platform distributionType bundleID
          entitlements minProfileDaysValid certSerials deviceUDIDs = Some profile"
    then obtain i where "isProfileMatching c (clock (k + i)) profile platform distributionType
          bundleID entitlements minProfileDaysValid certSerials deviceUDIDs"
      using findProfile_exact_SomeD by blast
    with m show False using isProfileMatching_not_managed by blast
  qed
next
  assume "isActive c now profile minProfileDaysValid
       \<and> hasMatchingDistributionType profile distributionType
       \<and> hasMatchingBundleID profile bundleID
       \<and> hasMatchingPlatform c profile platform
       \<and> hasMatchingLocalCertificates profile certSerials
       \<and> profileSupportsAppEntitlements c profile entitlements
       \<and> provisionsDevices profile deviceUDIDs"
  then show "isProfileMatchingWithSuperset c now profile platform distributionType bundleID
            entitlements minProfileDaysValid certSerials deviceUDIDs"
    by (simp add: isProfileMatchingWithSuperset_def)
next
  assume h: "IsXcodeManaged c profile
       \<and> isProfileMatchingWithSuperset c (clock 1) profile platform distributionType bundleID
            entitlements minProfileDaysValid certSerials deviceUDIDs"
  then have "\<not> isProfileMatching c (clock 0) profile platform distributionType bundleID
            entitlements minProfileDaysValid certSerials deviceUDIDs"
    using isProfileMatching_not_managed by blast
  with h show "findProfile c clock [profile] platform distributionType bundleID entitlements
            minProfileDaysValid certSerials deviceUDIDs = Some profile"
    by (simp add: findProfile_def)
qed

theorem tool_managed_asymmetry_witness:
  "IsXcodeManaged example_collaborators acme_managed_profile
   \<and> \<not> isProfileMatching example_collaborators 0 acme_managed_profile
         ''iOS'' ''app-store'' ''com.acme.app'' acme_entitlements 7 [''S1''] []
   \<and> isProfileMatchingWithSuperset example_collaborators 0 acme_managed_profile
         ''iOS'' ''app-store'' ''com.acme.app'' acme_entitlements 7 [''S1''] []
   \<and> findProfile example_collaborators example_clock [acme_managed_profile]
         ''iOS'' ''app-store'' ''com.acme.app'' acme_entitlements 7 [''S1''] []
       = Some acme_managed_profile"
  using tool_managed_asymmetry [where c = example_collaborators and now = 0
      and clock = example_clock and profile = acme_managed_profile
      and platform = "''iOS''" and distributionType = "''app-store''"
      and bundleID = "''com.acme.app''" and entitlements = acme_entitlements
      and minProfileDaysValid = 7 and certSerials = "[''S1'']" and deviceUDIDs = "[]"
      and k = 0 and localProfiles = "[acme_managed_profile]"]
  by (simp add: matching_defs example_defs)

section \<open>Exact mode implies superset mode\<close>

text \<open>
  C3: whatever the profile and the request, a profile that the exact-match predicate
  accepts is accepted by the superset predicate at the same instant; in particular
  \<open>containsAllAppEntitlements\<close> implies \<open>profileSupportsAppEntitlements\<close>.
\<close>

theorem exact_implies_superset:
  "(containsAllAppEntitlements c profile entitlements
      \<longrightarrow> profileSupportsAppEntitlements c profile entitlements)
   \<and> (isProfileMatching c now profile platform distributionType bundleID entitlements
         minProfileDaysValid certSerials deviceUDIDs
      \<longrightarrow> isProfileMatchingWithSuperset c now profile platform distributionType bundleID
            entitlements minProfileDaysValid certSerials deviceUDIDs)"
  using containsAll_imp_supports isProfileMatching_imp_superset by blast

theorem exact_implies_superset_witness:
  "containsAllAppEntitlements example_collaborators acme_profile acme_entitlements
   \<and> profileSupportsAppEntitlements example_collaborators acme_profile acme_entitlements
   \<and> isProfileMatching example_collaborators 0 acme_profile
         ''iOS'' ''app-store'' ''com.acme.app'' acme_entitlements 7 [''S1''] []
   \<and> isProfileMatchingWithSuperset example_collaborators 0 acme_profile
         ''iOS'' ''app-store'' ''com.acme.app'' acme_entitlements 7 [''S1''] []"
  using exact_implies_superset [where c = example_collaborators and now = 0
      and profile = acme_profile and platform = "''iOS''" and distributionType = "''app-store''"
      and bundleID = "''com.acme.app''" and entitlements = acme_entitlements
      and minProfileDaysValid = 7 and certSerials = "[''S1'']" and deviceUDIDs = "[]"]
  by (simp add: matching_defs example_defs)

section \<open>The validity window\<close>

text \<open>
  C4: \<open>isActive\<close> holds exactly when the instant of the call plus
  \<open>minProfileDaysValid\<close> days is strictly before the expiration of the profile, and
  for a non-positive number of days exactly when the instant of the call is strictly
  before it. Neither predicate accepts a profile that is not active, and a profile
  that \<open>findProfile\<close> returns was active at the reading of the clock taken when it
  was examined; a profile that is active at no reading is never returned.
\<close>

theorem inactive_never_returned:
  "isActive c now profile minProfileDaysValid
     = (if 0 < minProfileDaysValid
        then AddDate c now 0 0 minProfileDaysValid < ExpirationDate profile
        else now < ExpirationDate profile)
   \<and> (\<not> isActive c now profile minProfileDaysValid \<longrightarrow>
        \<not> isProfileMatching c now profile platform distributionType bundleID entitlements
            minProfileDaysValid certSerials deviceUDIDs
        \<and> \<not> isProfileMatchingWithSuperset c now profile platform distributionType bundleID
            entitlements minProfileDaysValid certSerials deviceUDIDs)
   \<and> (findProfile c clock localProfiles platform distributionType bundleID entitlements
         minProfileDaysValid certSerials deviceUDIDs = Some profile \<longrightarrow>
        (\<exists>k<2 * length localProfiles.
           localProfiles ! (k mod length localProfiles) = profile
           \<and> isActive c (clock k) profile minProfileDaysValid))
   \<and> ((\<forall>k. \<not> isActive c (clock k) profile minProfileDaysValid) \<longrightarrow>
        findProfile c clock localProfiles platform distributionType bundleID entitlements
          minProfileDaysValid certSerials deviceUDIDs \<noteq> Some profile)"
proof -
  have ret: "\<exists>k<2 * length localProfiles.
           localProfiles ! (k mod length localProfiles) = profile
           \<and> isActive c (clock k) profile minProfileDaysValid"
    if found: "findProfile c clock localProfiles platform distributionType bundleID entitlements
         minProfileDaysValid certSerials deviceUDIDs = Some profile"
  proof (cases "findProfile_exact c clock 0 localProfiles platform distributionType bundleID
             entitlements minProfileDaysValid certSerials deviceUDIDs")
    case (Some p)
    with found have "p = profile" by (simp add: findProfile_def)
    with Some obtain i where i: "i < length localProfiles" "localProfiles ! i = profile"
      "isProfileMatching c (clock (0 + i)) profile platform distributionType bundleID
         entitlements minProfileDaysValid certSerials deviceUDIDs"
      using findProfile_exact_SomeD by blast
    then have "isActive c (clock i) profile minProfileDaysValid"
      using isProfileMatching_active by simp
    with i show ?thesis by (intro exI[of _ i]) simp
  next
    case None
    with found have "findProfile_superset c clock (length localProfiles) localProfiles platform
        distributionType bundleID entitlements minProfileDaysValid certSerials deviceUDIDs
        = Some profile"
      by (simp add: findProfile_def)
    then obtain i where i: "i < length localProfiles" "localProfiles ! i = profile"
      "isProfileMatchingWithSuperset c (clock (length localProfiles + i)) profile platform
         distributionType bundleID entitlements minProfileDaysValid certSerials deviceUDIDs"
      using findProfile_superset_SomeD by blast
    then have "isActive c (clock (length localProfiles + i)) profile minProfileDaysValid"
      using isProfileMatchingWithSuperset_active by blast
    with i show ?thesis by (intro exI[of _ "length localProfiles + i"]) simp
  qed
  have def: "isActive c now profile minProfileDaysValid
     = (if 0 < minProfileDaysValid
        then AddDate c now 0 0 minProfileDaysValid < ExpirationDate profile
        else now < ExpirationDate profile)"
    by (simp add: isActive_def)
  have preds: "\<not> isActive c now profile minProfileDaysValid \<longrightarrow>
        \<not> isProfileMatching c now profile platform distributionType bundleID entitlements
            minProfileDaysValid certSerials deviceUDIDs
        \<and> \<not> isProfileMatchingWithSuperset c now profile platform distributionType bundleID
            entitlements minProfileDaysValid certSerials deviceUDIDs"
    using isProfileMatching_active isProfileMatchingWithSuperset_active by blast
  from ret def preds show ?thesis by blast
qed

theorem inactive_never_returned_witness:
  "\<not> isActive example_collaborators 0 acme_expired_profile 7
   \<and> \<not> isActive example_collaborators 0 acme_expired_profile 0
   \<and> isActive example_collaborators 0 acme_profile 7
   \<and> \<not> isActive example_collaborators 0 acme_profile 30
   \<and> findProfile example_collaborators example_clock [acme_expired_profile, acme_profile]
         ''iOS'' ''app-store'' ''com.acme.app'' acme_entitlements 7 [''S1''] [] = Some acme_profile
   \<and> (\<exists>k<2 * length [acme_expired_profile, acme_profile].
         [acme_expired_profile, acme_profile] ! (k mod length [acme_expired_profile, acme_profile])
           = acme_profile
         \<and> isActive example_collaborators (example_clock k) acme_profile 7)
   \<and> findProfile example_collaborators example_clock [acme_expired_profile, acme_profile]
         ''iOS'' ''app-store'' ''com.acme.app'' acme_entitlements 7 [''S1''] []
       \<noteq> Some acme_expired_profile"
proof -
  have found: "findProfile example_collaborators example_clock [acme_expired_profile, acme_profile]
         ''iOS'' ''app-store'' ''com.acme.app'' acme_entitlements 7 [''S1''] [] = Some acme_profile"
    by (simp add: matching_defs example_defs)
  have never: "\<forall>k. \<not> isActive example_collaborators (example_clock k) acme_expired_profile 7"
    by (simp add: matching_defs example_defs)
  have acts: "\<not> isActive example_collaborators 0 acme_expired_profile 7
   \<and> \<not> isActive example_collaborators 0 acme_expired_profile 0
   \<and> isActive example_collaborators 0 acme_profile 7
   \<and> \<not> isActive example_collaborators 0 acme_profile 30"
    by (simp add: matching_defs example_defs)
  from found
    inactive_never_returned [where c = example_collaborators and clock = example_clock
      and now = 0 and profile = acme_profile
      and localProfiles = "[acme_expired_profile, acme_profile]"
      and platform = "''iOS''" and distributionType = "''app-store''"
      and bundleID = "''com.acme.app''" and entitlements = acme_entitlements
      and minProfileDaysValid = 7 and certSerials = "[''S1'']" and deviceUDIDs = "[]"]
  have ex: "\<exists>k<2 * length [acme_expired_profile, acme_profile].
         [acme_expired_profile, acme_profile] ! (k mod length [acme_expired_profile, acme_profile])
           = acme_profile
         \<and> isActive example_collaborators (example_clock k) acme_profile 7"
    by blast
  from never
    inactive_never_returned [where c = example_collaborators and clock = example_clock
      and now = 0 and profile = acme_expired_profile
      and localProfiles = "[acme_expired_profile, acme_profile]"
      and platform = "''iOS''" and distributionType = "''app-store''"
      and bundleID = "''com.acme.app''" and entitlements = acme_entitlements
      and minProfileDaysValid = 7 and certSerials = "[''S1'']" and deviceUDIDs = "[]"]
  have ne: "findProfile example_collaborators example_clock [acme_expired_profile, acme_profile]
         ''iOS'' ''app-store'' ''com.acme.app'' acme_entitlements 7 [''S1''] []
       \<noteq> Some acme_expired_profile"
    by blast
  from found acts ex ne show ?thesis by blast
qed

section \<open>Superset mode, key by key\<close>

text \<open>
  C5: in superset mode a key other than the iCloud container key is decided as
  follows. Deep-equal values pass. A key that the profile does not have fails the
  match, whatever the required value. A required \<open>true\<close> against a profile's \<open>false\<close>
  fails; a required \<open>false\<close> against a profile's \<open>true\<close> passes. A required value
  that is not a boolean and differs from the profile's value fails. The function is
  true exactly when every entry of the app's entitlements passes.
\<close>

theorem superset_key_rules:
  assumes "key \<noteq> ICloudIdentifiersEntitlementKey"
  shows "(index profileEntitlements key = Some v \<longrightarrow>
            profileSupportsAppEntitlements_body c profileEntitlements appEntitlements key v)
       \<and> (index profileEntitlements key = None \<longrightarrow>
            \<not> profileSupportsAppEntitlements_body c profileEntitlements appEntitlements key v)
       \<and> (index profileEntitlements key = Some (PBool False) \<longrightarrow>
            \<not> profileSupportsAppEntitlements_body c profileEntitlements appEntitlements key
                (PBool True))
       \<and> (index profileEntitlements key = Some (PBool True) \<longrightarrow>
            profileSupportsAppEntitlements_body c profileEntitlements appEntitlements key
              (PBool False))
       \<and> ((\<forall>appBool. v \<noteq> PBool appBool) \<and> index profileEntitlements key \<noteq> Some v \<longrightarrow>
            \<not> profileSupportsAppEntitlements_body c profileEntitlements appEntitlements key v)
       \<and> profileSupportsAppEntitlements c profile appEntitlements
           = (\<forall>key v. index appEntitlements key = Some v \<longrightarrow>
                profileSupportsAppEntitlements_body c (Entitlements profile) appEntitlements
                  key v)"
proof (intro conjI impI)
  assume "index profileEntitlements key = Some v"
  then show "profileSupportsAppEntitlements_body c profileEntitlements appEntitlements key v"
    using assms by (simp add: profileSupportsAppEntitlements_body_def DeepEqual_def)
next
  assume "index profileEntitlements key = None"
  then show "\<not> profileSupportsAppEntitlements_body c profileEntitlements appEntitlements key v"
    using assms by (simp add: profileSupportsAppEntitlements_body_def DeepEqual_def)
next
  assume "index profileEntitlements key = Some (PBool False)"
  then show "\<not> profileSupportsAppEntitlements_body c profileEntitlements appEntitlements key
                (PBool True)"
    using assms by (simp add: profileSupportsAppEntitlements_body_def DeepEqual_def)
next
  assume "index profileEntitlements key = Some (PBool True)"
  then show "profileSupportsAppEntitlements_body c profileEntitlements appEntitlements key
              (PBool False)"
    using assms by (simp add: profileSupportsAppEntitlements_body_def DeepEqual_def)
next
  assume h: "(\<forall>appBool. v \<noteq> PBool appBool) \<and> index profileEntitlements key \<noteq> Some v"
  then show "\<not> profileSupportsAppEntitlements_body c profileEntitlements appEntitlements key v"
    using assms
    by (cases v) (auto simp: profileSupportsAppEntitlements_body_def DeepEqual_def Let_def)
next
  show "profileSupportsAppEntitlements c profile appEntitlements
           = (\<forall>key v. index appEntitlements key = Some v \<longrightarrow>
                profileSupportsAppEntitlements_body c (Entitlements profile) appEntitlements
                  key v)"
    by (rule profileSupportsAppEntitlements_iff)
qed

text \<open>
  On the example data, for the key \<open>associated-domains\<close>: the profile's \<open>false\<close> does
  not support a required \<open>true\<close>, in either mode; the profile's \<open>true\<close> supports a
  required \<open>false\<close> in superset mode only; a profile without the key supports
  neither; and a differing string fails.
\<close>

theorem superset_key_rules_witness:
  "''associated-domains'' \<noteq> ICloudIdentifiersEntitlementKey
   \<and> \<not> profileSupportsAppEntitlements example_collaborators (domains_profile False)
         [(''associated-domains'', PBool True)]
   \<and> \<not> containsAllAppEntitlements example_collaborators (domains_profile False)
         [(''associated-domains'', PBool True)]
   \<and> profileSupportsAppEntitlements example_collaborators (domains_profile True)
         [(''associated-domains'', PBool False)]
   \<and> \<not> containsAllAppEntitlements example_collaborators (domains_profile True)
         [(''associated-domains'', PBool False)]
   \<and> profileSupportsAppEntitlements example_collaborators (domains_profile True)
         [(''associated-domains'', PBool True)]
   \<and> \<not> profileSupportsAppEntitlements example_collaborators acme_profile
         [(''associated-domains'', PBool False)]
   \<and> \<not> profileSupportsAppEntitlements example_collaborators acme_profile
         [(''aps-environment'', PString ''development'')]"
proof -
  have key: "''associated-domains'' \<noteq> ICloudIdentifiersEntitlementKey"
    and key': "''aps-environment'' \<noteq> ICloudIdentifiersEntitlementKey"
    by (simp_all add: ICloudIdentifiersEntitlementKey_def)
  note r1 = superset_key_rules [OF key, where c = example_collaborators
      and profile = "domains_profile False"
      and profileEntitlements = "Entitlements (domains_profile False)"
      and appEntitlements = "[(''associated-domains'', PBool True)]" and v = "PBool True"]
  note r2 = superset_key_rules [OF key, where c = example_collaborators
      and profile = "domains_profile True"
      and profileEntitlements = "Entitlements (domains_profile True)"
      and appEntitlements = "[(''associated-domains'', PBool False)]" and v = "PBool False"]
  note r3 = superset_key_rules [OF key, where c = example_collaborators
      and profile = "domains_profile True"
      and profileEntitlements = "Entitlements (domains_profile True)"
      and appEntitlements = "[(''associated-domains'', PBool True)]" and v = "PBool True"]
  note r4 = superset_key_rules [OF key, where c = example_collaborators
      and profile = acme_profile and profileEntitlements = "Entitlements acme_profile"
      and appEntitlements = "[(''associated-domains'', PBool False)]" and v = "PBool False"]
  note r5 = superset_key_rules [OF key', where c = example_collaborators
      and profile = acme_profile and profileEntitlements = "Entitlements acme_profile"
      and appEntitlements = "[(''aps-environment'', PString ''development'')]"
      and v = "PString ''development''"]
  have c1: "\<not> containsAllAppEntitlements example_collaborators (domains_profile False)
         [(''associated-domains'', PBool True)]"
    and c2: "\<not> containsAllAppEntitlements example_collaborators (domains_profile True)
         [(''associated-domains'', PBool False)]"
    by (simp_all add: matching_defs example_defs)
  have s1: "\<not> profileSupportsAppEntitlements example_collaborators (domains_profile False)
         [(''associated-domains'', PBool True)]"
    using r1 by (simp add: index_def domains_profile_def acme_profile_def)
  have s2: "profileSupportsAppEntitlements example_collaborators (domains_profile True)
         [(''associated-domains'', PBool False)]"
    using r2 by (simp add: index_def domains_profile_def acme_profile_def split: if_splits)
  have s3: "profileSupportsAppEntitlements example_collaborators (domains_profile True)
         [(''associated-domains'', PBool True)]"
    using r3 by (simp add: index_def domains_profile_def acme_profile_def split: if_splits)
  have s4: "\<not> profileSupportsAppEntitlements example_collaborators acme_profile
         [(''associated-domains'', PBool False)]"
    using r4 by (simp add: index_def acme_profile_def)
  have s5: "\<not> profileSupportsAppEntitlements example_collaborators acme_profile
         [(''aps-environment'', PString ''development'')]"
    using r5 by (simp add: index_def acme_profile_def)
  from key c1 c2 s1 s2 s3 s4 s5 show ?thesis by blast
qed

section \<open>The iCloud container key\<close>

text \<open>
  C6: for the iCloud container key both modes decide by the missing-container
  computation alone: the entry passes exactly when that computation returns an empty
  list without error, whatever the two values are. So when the app has the key, an
  error or a non-empty list of missing containers fails the match in both modes.
\<close>

theorem icloud_key_rule:
  "containsAllAppEntitlements_body c profileEntitlements appEntitlements
       ICloudIdentifiersEntitlementKey v
     = (FindMissingContainers c appEntitlements profileEntitlements = Inr [])
   \<and> profileSupportsAppEntitlements_body c profileEntitlements appEntitlements
       ICloudIdentifiersEntitlementKey v
     = (FindMissingContainers c appEntitlements profileEntitlements = Inr [])
   \<and> (index appEntitlements ICloudIdentifiersEntitlementKey = Some v
       \<and> ((\<exists>err. FindMissingContainers c appEntitlements (Entitlements profile) = Inl err)
          \<or> (\<exists>missingContainers.
                FindMissingContainers c appEntitlements (Entitlements profile)
                  = Inr missingContainers \<and> length missingContainers > 0))
      \<longrightarrow> \<not> containsAllAppEntitlements c profile appEntitlements
          \<and> \<not> profileSupportsAppEntitlements c profile appEntitlements)"
proof (intro conjI impI)
  show e: "containsAllAppEntitlements_body c profileEntitlements appEntitlements
       ICloudIdentifiersEntitlementKey v
     = (FindMissingContainers c appEntitlements profileEntitlements = Inr [])"
    for profileEntitlements
    by (simp add: containsAllAppEntitlements_body_def split: sum.splits)
  show s: "profileSupportsAppEntitlements_body c profileEntitlements appEntitlements
       ICloudIdentifiersEntitlementKey v
     = (FindMissingContainers c appEntitlements profileEntitlements = Inr [])"
    for profileEntitlements
    by (simp add: profileSupportsAppEntitlements_body_def split: sum.splits)
  assume h: "index appEntitlements ICloudIdentifiersEntitlementKey = Some v
       \<and> ((\<exists>err. FindMissingContainers c appEntitlements (Entitlements profile) = Inl err)
          \<or> (\<exists>missingContainers.
                FindMissingContainers c appEntitlements (Entitlements profile)
                  = Inr missingContainers \<and> length missingContainers > 0))"
  then have bad: "FindMissingContainers c appEntitlements (Entitlements profile) \<noteq> Inr []"
    by auto
  from h bad e show "\<not> containsAllAppEntitlements c profile appEntitlements"
    unfolding containsAllAppEntitlements_iff by blast
  from h bad s show "\<not> profileSupportsAppEntitlements c profile appEntitlements"
    unfolding profileSupportsAppEntitlements_iff by blast
qed

text \<open>
  The spec's scenario: the app requires the containers A and B. A profile that grants
  A, B and C passes both modes, a profile that grants A only fails both.
\<close>

theorem icloud_key_rule_witness:
  "index (icloud_entitlements [''A'', ''B'']) ICloudIdentifiersEntitlementKey
     = Some (PArray [PString ''A'', PString ''B''])
   \<and> FindMissingContainers example_collaborators (icloud_entitlements [''A'', ''B''])
       (Entitlements (icloud_profile [''A''])) = Inr [''B'']
   \<and> \<not> containsAllAppEntitlements example_collaborators (icloud_profile [''A''])
         (icloud_entitlements [''A'', ''B''])
   \<and> \<not> profileSupportsAppEntitlements example_collaborators (icloud_profile [''A''])
         (icloud_entitlements [''A'', ''B''])
   \<and> containsAllAppEntitlements example_collaborators (icloud_profile [''A'', ''B'', ''C''])
         (icloud_entitlements [''A'', ''B''])
   \<and> profileSupportsAppEntitlements example_collaborators (icloud_profile [''A'', ''B'', ''C''])
         (icloud_entitlements [''A'', ''B''])"
proof -
  have i: "index (icloud_entitlements [''A'', ''B'']) ICloudIdentifiersEntitlementKey
     = Some (PArray [PString ''A'', PString ''B''])"
    by (simp add: index_def icloud_entitlements_def)
  have m: "FindMissingContainers example_collaborators (icloud_entitlements [''A'', ''B''])
       (Entitlements (icloud_profile [''A''])) = Inr [''B'']"
    by (simp add: example_defs index_def)
  from i m
    icloud_key_rule [where c = example_collaborators and profile = "icloud_profile [''A'']"
      and appEntitlements = "icloud_entitlements [''A'', ''B'']"
      and v = "PArray [PString ''A'', PString ''B'']"]
  have fails: "\<not> containsAllAppEntitlements example_collaborators (icloud_profile [''A''])
         (icloud_entitlements [''A'', ''B''])
     \<and> \<not> profileSupportsAppEntitlements example_collaborators (icloud_profile [''A''])
         (icloud_entitlements [''A'', ''B''])"
    by simp
  have passes: "containsAllAppEntitlements example_collaborators
         (icloud_profile [''A'', ''B'', ''C'']) (icloud_entitlements [''A'', ''B''])
     \<and> profileSupportsAppEntitlements example_collaborators
         (icloud_profile [''A'', ''B'', ''C'']) (icloud_entitlements [''A'', ''B''])"
    by (simp add: matching_defs example_defs)
  from i m fails passes show ?thesis by blast
qed

section \<open>Device coverage\<close>

text \<open>
  C7: \<open>provisionsDevices\<close> is true whenever the profile provisions all devices or no
  device is required, whatever the profile's device list; otherwise it is true exactly
  when every required UDID is in the profile's device list, and so false for an empty
  device list and a non-empty requirement.
\<close>

theorem provisionsDevices_coverage:
  "(ProvisionsAllDevices profile \<or> deviceUDIDs = [] \<longrightarrow> provisionsDevices profile deviceUDIDs)
   \<and> (\<not> ProvisionsAllDevices profile \<and> deviceUDIDs \<noteq> [] \<longrightarrow>
        provisionsDevices profile deviceUDIDs
          = (\<forall>u \<in> set deviceUDIDs. u \<in> set (ProvisionedDevices profile)))
   \<and> (\<not> ProvisionsAllDevices profile \<and> deviceUDIDs \<noteq> [] \<and> ProvisionedDevices profile = [] \<longrightarrow>
        \<not> provisionsDevices profile deviceUDIDs)"
proof (intro conjI impI)
  assume "ProvisionsAllDevices profile \<or> deviceUDIDs = []"
  then show "provisionsDevices profile deviceUDIDs"
    by (auto simp: provisionsDevices_def)
next
  assume h: "\<not> ProvisionsAllDevices profile \<and> deviceUDIDs \<noteq> []"
  show "provisionsDevices profile deviceUDIDs
          = (\<forall>u \<in> set deviceUDIDs. u \<in> set (ProvisionedDevices profile))"
  proof (cases "ProvisionedDevices profile = []")
    case True
    with h show ?thesis
      by (cases deviceUDIDs) (auto simp: provisionsDevices_def)
  next
    case False
    with h show ?thesis
      by (auto simp: provisionsDevices_def provisionsDevices_loop_iff)
  qed
next
  assume "\<not> ProvisionsAllDevices profile \<and> deviceUDIDs \<noteq> [] \<and> ProvisionedDevices profile = []"
  then show "\<not> provisionsDevices profile deviceUDIDs"
    by (simp add: provisionsDevices_def)
qed

theorem provisionsDevices_coverage_witness:
  "provisionsDevices acme_profile []
   \<and> provisionsDevices (acme_profile\<lparr>ProvisionsAllDevices := True\<rparr>) [''D9'']
   \<and> provisionsDevices device_profile [''D2'', ''D1'']
   \<and> \<not> provisionsDevices device_profile [''D1'', ''D3'']
   \<and> \<not> provisionsDevices acme_profile [''D1'']"
  using provisionsDevices_coverage [of acme_profile "[]"]
    provisionsDevices_coverage [of "acme_profile\<lparr>ProvisionsAllDevices := True\<rparr>" "[''D9'']"]
    provisionsDevices_coverage [of device_profile "[''D2'', ''D1'']"]
    provisionsDevices_coverage [of device_profile "[''D1'', ''D3'']"]
    provisionsDevices_coverage [of acme_profile "[''D1'']"]
  by (simp add: example_defs)

lemmas archive_defs =
  NewIosArchive_def NewIosArchive_appPath_def applicationFromPlist_def
  applicationFromArchive_def NewIosApplication_def NewIosApplication_watch_def
  NewIosApplication_clip_def NewIosApplication_extensions_def NewIosBaseApplication_def
  NewIosWatchApplication_def NewIosClipApplication_def NewIosExtension_def
  extractFrameworkInfo_def extractFrameworkProfileInfo_def
  getFrameworkBundleIDEntitlements_def getFrameworkBundleIDProfiles_def
  BundleIDEntitlementsMap_def BundleIDProfileInfoMap_def BundleIdentifier_def
  spec_bundle_identities_def spec_carries_profile_def spec_manifest_bundleID_def
  spec_framework_entitlements_def spec_framework_profile_def
  spec_identities_entitlements_def spec_identities_profiles_def List.map_filter_def

lemmas example_archive_defs =
  example_environment_def example_plists_def example_profiles_def example_GetString_def
  example_GetMapStringInterface_def example_application_def example_archive_def
  example_environment_without_def example_clash_archive_def index_def
  IosBaseApplication.extend_def IosBaseApplication.truncate_def

section \<open>Optional components and mandatory files\<close>



section \<open>The aggregated maps\<close>




section \<open>The team of an archive\<close>

text \<open>
  C10: for an archive that \<open>NewIosArchive\<close> has built, \<open>TeamID\<close> cannot return the
  error \<open>team id not found\<close>, in whatever state the file system is when it is called:
  the profile map has the entry of the primary application, so there is an entry to
  visit; the call has a result, and every result is the team of an entry of the map.
\<close>

theorem TeamID_of_constructed_archive:
  assumes "NewIosArchive env path = Inr archive"
  shows "\<not> archive_TeamID env' archive (Inl (Error ''team id not found''))
       \<and> BundleIdentifier env' (Application archive)
           \<in> fst ` set (BundleIDProfileInfoMap env' archive)
       \<and> (\<exists>bundleID profileInfo.
             map_of (BundleIDProfileInfoMap env' archive) bundleID = Some profileInfo
             \<and> archive_TeamID env' archive (Inr (TeamID profileInfo)))
       \<and> (archive_TeamID env' archive result \<longrightarrow>
            (\<exists>bundleID profileInfo.
               map_of (BundleIDProfileInfoMap env' archive) bundleID = Some profileInfo
               \<and> result = Inr (TeamID profileInfo)))"
proof -
  have primary: "BundleIdentifier env' (Application archive)
           \<in> fst ` set (BundleIDProfileInfoMap env' archive)"
    by (rule BundleIDProfileInfoMap_has_primary)
  then have nonempty: "BundleIDProfileInfoMap env' archive \<noteq> []" by auto
  have entry: "map_of (BundleIDProfileInfoMap env' archive) bundleID = Some profileInfo"
    if "(bundleID, profileInfo) \<in> set (BundleIDProfileInfoMap env' archive)"
    for bundleID profileInfo
    using that BundleIDProfileInfoMap_distinct by simp
  have no_error: "\<not> archive_TeamID env' archive (Inl (Error ''team id not found''))"
  proof
    assume "archive_TeamID env' archive (Inl (Error ''team id not found''))"
    then show False using nonempty by (cases rule: archive_TeamID.cases) simp_all
  qed
  from primary obtain bundleID profileInfo
    where mem: "(bundleID, profileInfo) \<in> set (BundleIDProfileInfoMap env' archive)"
    by auto
  then have some: "\<exists>bundleID profileInfo.
             map_of (BundleIDProfileInfoMap env' archive) bundleID = Some profileInfo
             \<and> archive_TeamID env' archive (Inr (TeamID profileInfo))"
    using entry archive_TeamID.visit by blast
  have every: "archive_TeamID env' archive result \<longrightarrow>
            (\<exists>bundleID profileInfo.
               map_of (BundleIDProfileInfoMap env' archive) bundleID = Some profileInfo
               \<and> result = Inr (TeamID profileInfo))"
  proof
    assume "archive_TeamID env' archive result"
    then show "\<exists>bundleID profileInfo.
               map_of (BundleIDProfileInfoMap env' archive) bundleID = Some profileInfo
               \<and> result = Inr (TeamID profileInfo)"
      using nonempty entry by (cases rule: archive_TeamID.cases) auto
  qed
  from no_error primary some every show ?thesis by blast
qed

theorem TeamID_of_constructed_archive_witness:
  "NewIosArchive example_environment ''A'' = Inr example_archive
   \<and> \<not> archive_TeamID example_environment example_archive (Inl (Error ''team id not found''))
   \<and> archive_TeamID example_environment example_archive (Inr ''T1'')"
proof -
  have built: "NewIosArchive example_environment ''A'' = Inr example_archive"
    by (simp add: archive_defs example_archive_defs)
  note found = TeamID_of_constructed_archive [OF built, where env' = example_environment]
  have "(''com.acme.app'', acme_profile)
          \<in> set (BundleIDProfileInfoMap example_environment example_archive)"
    by (simp add: archive_defs example_archive_defs)
  then have "archive_TeamID example_environment example_archive (Inr (TeamID acme_profile))"
    by (rule archive_TeamID.visit)
  then have team: "archive_TeamID example_environment example_archive (Inr ''T1'')"
    by (simp add: acme_profile_def)
  from built found team show ?thesis by blast
qed

end
